theory Spec2Isabelle
  imports Main
begin

section \<open>Values of the host language\<close>

text \<open>
  The adapter works on loosely typed parameter payloads. A value is one of the JSON-like
  shapes the code inspects (\<open>_.isString\<close>, \<open>_.isNumber\<close>, \<open>Array.isArray\<close>,
  \<open>_.isObject\<close>, truthiness, \<open>== null\<close>). Numbers are integers here: fractions and NaN
  are outside the model. An object is an association list in insertion order, which is the
  order \<open>Object.keys\<close> reports for keys that are not array indices.
\<close>

datatype jsval =
    JUndefined
  | JNull
  | JBool bool
  | JNum int
  | JStr string
  | JArr "jsval list"
  | JObj "(string \<times> jsval) list"

type_synonym obj = "(string \<times> jsval) list"

fun is_nullish :: "jsval \<Rightarrow> bool" where
  "is_nullish JUndefined = True"
| "is_nullish JNull = True"
| "is_nullish _ = False"

fun truthy :: "jsval \<Rightarrow> bool" where
  "truthy JUndefined = False"
| "truthy JNull = False"
| "truthy (JBool b) = b"
| "truthy (JNum n) = (n \<noteq> 0)"
| "truthy (JStr s) = (s \<noteq> [])"
| "truthy (JArr _) = True"
| "truthy (JObj _) = True"

definition obj_get :: "obj \<Rightarrow> string \<Rightarrow> jsval" where
  "obj_get ob k = (case map_of ob k of None \<Rightarrow> JUndefined | Some v \<Rightarrow> v)"

fun obj_set :: "obj \<Rightarrow> string \<Rightarrow> jsval \<Rightarrow> obj" where
  "obj_set [] k v = [(k, v)]"
| "obj_set ((k', v') # ob) k v =
     (if k' = k then (k, v) # ob else (k', v') # obj_set ob k v)"

definition obj_delete :: "obj \<Rightarrow> string \<Rightarrow> obj" where
  "obj_delete ob k = filter (\<lambda>kv. fst kv \<noteq> k) ob"

definition obj_keys :: "obj \<Rightarrow> string list" where
  "obj_keys ob = map fst ob"

section \<open>formatQuery: the identifier-quoting rewrite\<close>

text \<open>
  \<open>query.replace(/"/g, "`")\<close>: every double quote (code 0x22) becomes a backtick
  (code 0x60); every other character is kept.
\<close>

definition dquote :: char where
  "dquote = CHR 0x22"

definition backtick :: char where
  "backtick = CHR 0x60"

definition replace_quotes :: "string \<Rightarrow> string" where
  "replace_quotes query = map (\<lambda>c. if c = dquote then backtick else c) query"

text \<open>
  The template literal of \<open>insert\<close>, \<open>insertMany\<close>, \<open>updateMany\<close> and \<open>updateById\<close>:
  two already formatted statements, each followed by a semicolon, on lines of their own.
\<close>

definition nl :: char where
  "nl = CHR 0x0A"

definition batch2 :: "string \<Rightarrow> string \<Rightarrow> string" where
  "batch2 s1 s2 =
     nl # ''      '' @ s1 @ '';'' @ nl # ''      '' @ s2 @ '';'' @ nl # ''    ''"

text \<open>The template literal of \<open>removeMany\<close> and \<open>removeById\<close>: one statement.\<close>

definition batch1 :: "string \<Rightarrow> string" where
  "batch1 s1 = nl # ''      '' @ s1 @ '';'' @ nl # ''    ''"

section \<open>Strings\<close>

text \<open>\<open>s.split(sep)\<close> for a one-character separator: the empty string gives one empty piece.\<close>

fun split_on :: "char \<Rightarrow> string \<Rightarrow> string list" where
  "split_on sep [] = [[]]"
| "split_on sep (c # cs) =
     (if c = sep then [] # split_on sep cs
      else (case split_on sep cs of
              [] \<Rightarrow> [[c]]
            | w # ws \<Rightarrow> (c # w) # ws))"

text \<open>\<open>s.replace(/,/, " ")\<close>: the pattern has no global flag, so only the first comma is replaced.\<close>

fun replace_first_comma :: "string \<Rightarrow> string" where
  "replace_first_comma [] = []"
| "replace_first_comma (c # cs) =
     (if c = CHR '','' then CHR '' '' # cs else c # replace_first_comma cs)"

fun digit_of :: "nat \<Rightarrow> char" where
  "digit_of n = char_of (48 + n)"

fun show_nat :: "nat \<Rightarrow> string" where
  "show_nat n = (if n < 10 then [digit_of n] else show_nat (n div 10) @ [digit_of (n mod 10)])"

declare show_nat.simps [simp del]

definition show_int :: "int \<Rightarrow> string" where
  "show_int i = (if i < 0 then CHR ''-'' # show_nat (nat (- i)) else show_nat (nat i))"

section \<open>Configuration, errors, contexts\<close>

text \<open>
  \<open>BigQueryDbAdapterOptions\<close>. \<open>getIdKey\<close> is called without a context everywhere in the
  adapter, so it is a constant here; \<open>queryWrapper\<close> receives the statement and the location.
\<close>

record config =
  getTableName :: "jsval \<Rightarrow> string"
  getIdKey :: string
  queryWrapper :: "(string \<Rightarrow> jsval \<Rightarrow> string) option"
  queryBlacklist :: "string list option"
  showLogs :: bool

text \<open>
  \<open>MissingContext\<close> is the MoleculerError of \<open>retrieveContext\<close>; \<open>TypeError\<close> is the
  runtime's own; the engine's two failures are a rejected job and a failed one.
  \<open>Unmodelled\<close> marks an input whose treatment is decided inside the query-builder
  library or by a numeric coercion that this development does not follow; it is not an
  error of the program.
\<close>

datatype error =
    MissingContext
  | TypeError
  | EngineSubmissionError string
  | EngineExecutionError string
  | Unmodelled

definition ctx_key :: string where
  "ctx_key = ''adapter_private_context''"

text \<open>
  \<open>retrieveContext\<close>, the branch for one payload object. The result is the context with
  its \<open>tableName\<close> set, and the payload after \<open>delete params.adapter_private_context\<close>.
  Assigning a property on a primitive raises in strict code; an array as context is
  outside \<open>BigQueryContext\<close> and is not followed.
\<close>

definition retrieveContext :: "config \<Rightarrow> obj \<Rightarrow> error + (obj \<times> obj)" where
  "retrieveContext cfg params =
     (let context = obj_get params ctx_key in
      if is_nullish context then Inl MissingContext
      else (case context of
              JObj fs \<Rightarrow>
                Inr (obj_set fs ''tableName'' (JStr (getTableName cfg context)),
                     obj_delete params ctx_key)
            | JArr _ \<Rightarrow> Inl Unmodelled
            | _ \<Rightarrow> Inl TypeError))"

text \<open>
  The branch for an array of payloads: \<open>params.map(...)\<close> treats the elements in order and
  stops at the first throw; \<open>.shift()\<close> then takes the first context, or \<open>undefined\<close>
  for an empty array.
\<close>

fun retrieveContext_each :: "config \<Rightarrow> obj list \<Rightarrow> error + (obj \<times> obj) list" where
  "retrieveContext_each cfg [] = Inr []"
| "retrieveContext_each cfg (p # ps) =
     (case retrieveContext cfg p of
        Inl e \<Rightarrow> Inl e
      | Inr r \<Rightarrow> (case retrieveContext_each cfg ps of
                   Inl e \<Rightarrow> Inl e
                 | Inr rs \<Rightarrow> Inr (r # rs)))"

definition retrieveContext_array :: "config \<Rightarrow> obj list \<Rightarrow> error + (obj option \<times> obj list)" where
  "retrieveContext_array cfg params =
     (case retrieveContext_each cfg params of
        Inl e \<Rightarrow> Inl e
      | Inr rs \<Rightarrow> Inr (case rs of [] \<Rightarrow> None | r # _ \<Rightarrow> Some (fst r), map snd rs))"

text \<open>\<open>`${context?.tableName}`\<close> and \<open>context?.region\<close>.\<close>

definition context_table :: "obj \<Rightarrow> string" where
  "context_table context =
     (case obj_get context ''tableName'' of JStr s \<Rightarrow> s | _ \<Rightarrow> ''undefined'')"

definition context_region :: "obj \<Rightarrow> jsval" where
  "context_region context = obj_get context ''region''"

section \<open>The query builder\<close>

text \<open>
  The adapter drives a knex builder. The builder is the record of the calls made on it:
  the where clauses in call order, each with the connective of the call that added it
  (\<open>where\<close>, \<open>whereIn\<close>: and; \<open>orWhere\<close>: or), the \<open>orderBy\<close> calls, \<open>limit\<close>,
  \<open>offset\<close>, and the statement kind. \<open>where(object)\<close> adds one equality per key.
  The library's compiler to text is a parameter of every operation.
\<close>

datatype connective = And | Or

datatype cond =
    Eq string jsval
  | Like string string
  | In string "jsval list"

datatype direction = Asc | Desc

datatype statement =
    Select
  | Count string
  | Insert "obj list"
  | Update obj
  | Del

record builder =
  b_table :: string
  b_method :: statement
  b_wheres :: "(connective \<times> cond) list"
  b_orders :: "(string \<times> direction) list"
  b_limit :: "int option"
  b_offset :: "int option"

definition bq :: "string \<Rightarrow> builder" where
  "bq t = \<lparr>b_table = t, b_method = Select, b_wheres = [], b_orders = [],
           b_limit = None, b_offset = None\<rparr>"

definition where_obj :: "obj \<Rightarrow> builder \<Rightarrow> builder" where
  "where_obj ob q = q\<lparr>b_wheres := b_wheres q @ map (\<lambda>kv. (And, Eq (fst kv) (snd kv))) ob\<rparr>"

definition whereIn :: "string \<Rightarrow> jsval list \<Rightarrow> builder \<Rightarrow> builder" where
  "whereIn col vals q = q\<lparr>b_wheres := b_wheres q @ [(And, In col vals)]\<rparr>"

definition orWhere_like :: "string \<Rightarrow> string \<Rightarrow> builder \<Rightarrow> builder" where
  "orWhere_like col pat q = q\<lparr>b_wheres := b_wheres q @ [(Or, Like col pat)]\<rparr>"

definition orderBy :: "string \<Rightarrow> direction \<Rightarrow> builder \<Rightarrow> builder" where
  "orderBy col d q = q\<lparr>b_orders := b_orders q @ [(col, d)]\<rparr>"

definition limit_to :: "int \<Rightarrow> builder \<Rightarrow> builder" where
  "limit_to n q = q\<lparr>b_limit := Some n\<rparr>"

definition offset_by :: "int \<Rightarrow> builder \<Rightarrow> builder" where
  "offset_by n q = q\<lparr>b_offset := Some n\<rparr>"

definition set_method :: "statement \<Rightarrow> builder \<Rightarrow> builder" where
  "set_method m q = q\<lparr>b_method := m\<rparr>"

definition where_columns :: "builder \<Rightarrow> string list" where
  "where_columns q =
     map (\<lambda>c. case snd c of Eq k _ \<Rightarrow> k | Like k _ \<Rightarrow> k | In k _ \<Rightarrow> k) (b_wheres q)"

section \<open>Filter normalisation\<close>

text \<open>The object spread \<open>{ ...whereObject }\<close>: own enumerable properties of the value.\<close>

fun indexed :: "nat \<Rightarrow> jsval list \<Rightarrow> obj" where
  "indexed i [] = []"
| "indexed i (v # vs) = (show_nat i, v) # indexed (Suc i) vs"

fun spread :: "jsval \<Rightarrow> obj" where
  "spread (JObj fs) = fs"
| "spread (JArr vs) = indexed 0 vs"
| "spread (JStr s) = indexed 0 (map (\<lambda>c. JStr [c]) s)"
| "spread _ = []"

definition blacklist :: "config \<Rightarrow> string list" where
  "blacklist cfg = (case queryBlacklist cfg of None \<Rightarrow> [] | Some bl \<Rightarrow> bl)"

definition migrateIdParamToPrimaryKey :: "config \<Rightarrow> jsval \<Rightarrow> obj" where
  "migrateIdParamToPrimaryKey cfg whereObject =
     (let whereObjectCopy = spread whereObject;
          assigned =
            (if truthy (obj_get whereObjectCopy ''id'')
             then obj_set whereObjectCopy (getIdKey cfg) (obj_get whereObjectCopy ''id'')
             else whereObjectCopy)
      in fold (\<lambda>backlistedKey ob. obj_delete ob backlistedKey) (blacklist cfg) assigned)"

text \<open>
  \<open>sort[key] > 0\<close> on the values this development follows: numbers, booleans, \<open>null\<close>
  (zero) and \<open>undefined\<close> (NaN).
\<close>

fun gt_zero :: "jsval \<Rightarrow> error + bool" where
  "gt_zero (JNum n) = Inr (n > 0)"
| "gt_zero (JBool b) = Inr b"
| "gt_zero JNull = Inr False"
| "gt_zero JUndefined = Inr False"
| "gt_zero _ = Inl Unmodelled"

text \<open>The \<open>forEach\<close> over the tokens: \<open>s.startsWith\<close> exists on strings only.\<close>

fun sort_tokens :: "jsval list \<Rightarrow> obj \<Rightarrow> error + obj" where
  "sort_tokens [] sortObj = Inr sortObj"
| "sort_tokens (JStr s # ss) sortObj =
     (if s \<noteq> [] \<and> hd s = CHR ''-''
      then sort_tokens ss (obj_set sortObj (tl s) (JNum (- 1)))
      else sort_tokens ss (obj_set sortObj s (JNum 1)))"
| "sort_tokens (_ # ss) sortObj = Inl TypeError"

fun order_by_keys :: "obj \<Rightarrow> builder \<Rightarrow> error + builder" where
  "order_by_keys [] q = Inr q"
| "order_by_keys (kv # kvs) q =
     (case gt_zero (snd kv) of
        Inl e \<Rightarrow> Inl e
      | Inr pos \<Rightarrow> order_by_keys kvs (orderBy (fst kv) (if pos then Asc else Desc) q))"

definition sort_to_object :: "jsval \<Rightarrow> error + jsval" where
  "sort_to_object paramSort =
     (let sort1 = (case paramSort of
                     JStr s \<Rightarrow> JArr (map JStr (split_on CHR '' '' (replace_first_comma s)))
                   | v \<Rightarrow> v)
      in case sort1 of
           JArr xs \<Rightarrow> (case sort_tokens xs [] of Inl e \<Rightarrow> Inl e | Inr so \<Rightarrow> Inr (JObj so))
         | v \<Rightarrow> Inr v)"

definition transformSort :: "builder \<Rightarrow> jsval \<Rightarrow> error + builder" where
  "transformSort q paramSort =
     (case sort_to_object paramSort of
        Inl e \<Rightarrow> Inl e
      | Inr (JObj kvs) \<Rightarrow> order_by_keys kvs q
      | Inr _ \<Rightarrow> Inr q)"

section \<open>createCursor: the statement of find and count\<close>

fun str_items :: "jsval list \<Rightarrow> error + string list" where
  "str_items [] = Inr []"
| "str_items (JStr s # vs) =
     (case str_items vs of Inl e \<Rightarrow> Inl e | Inr ss \<Rightarrow> Inr (s # ss))"
| "str_items (_ # vs) = Inl Unmodelled"

text \<open>
  The \<open>fields\<close> of the search branch. A value with no positive \<open>length\<close> gives no
  clause; an object with one is not iterable.
\<close>

definition search_fields :: "jsval \<Rightarrow> error + string list" where
  "search_fields sf =
     (if truthy sf then
        (case sf of
           JStr s \<Rightarrow> Inr (split_on CHR '' '' s)
         | JArr xs \<Rightarrow> str_items xs
         | JObj fs \<Rightarrow>
             (case gt_zero (obj_get fs ''length'') of
                Inl e \<Rightarrow> Inl e
              | Inr pos \<Rightarrow> if pos then Inl TypeError else Inr [])
         | _ \<Rightarrow> Inr [])
      else Inr [])"

definition sort_if_given :: "obj \<Rightarrow> builder \<Rightarrow> error + builder" where
  "sort_if_given params q =
     (if truthy (obj_get params ''sort'') then transformSort q (obj_get params ''sort'')
      else Inr q)"

definition apply_offset :: "obj \<Rightarrow> builder \<Rightarrow> builder" where
  "apply_offset params q =
     (case obj_get params ''offset'' of
        JNum n \<Rightarrow> if n > 0 then offset_by n q else q
      | _ \<Rightarrow> q)"

definition apply_limit :: "obj \<Rightarrow> builder \<Rightarrow> builder" where
  "apply_limit params q =
     (case obj_get params ''limit'' of
        JNum n \<Rightarrow> if n > 0 then limit_to n q else q
      | _ \<Rightarrow> q)"

definition like_pattern :: "string \<Rightarrow> string" where
  "like_pattern term = ''%'' @ term @ ''%''"

text \<open>The branch \<open>_.isString(params.search) && params.search !== ""\<close>.\<close>

definition search_branch :: "config \<Rightarrow> obj \<Rightarrow> string \<Rightarrow> builder \<Rightarrow> error + builder" where
  "search_branch cfg params term q =
     (case search_fields (obj_get params ''searchFields'') of
        Inl e \<Rightarrow> Inl e
      | Inr fieldList \<Rightarrow>
          (let q1 = (if truthy (obj_get params ''query'')
                     then where_obj (migrateIdParamToPrimaryKey cfg (obj_get params ''query'')) q
                     else q);
               q2 = fold (\<lambda>field. orWhere_like field (like_pattern term)) fieldList q1
           in sort_if_given params q2))"

definition query_branch :: "config \<Rightarrow> obj \<Rightarrow> builder \<Rightarrow> error + builder" where
  "query_branch cfg params q =
     sort_if_given params
       (where_obj (migrateIdParamToPrimaryKey cfg (obj_get params ''query'')) q)"

text \<open>
  The builder \<open>createCursor\<close> compiles, from the context and the payload left by
  \<open>retrieveContext\<close>. The closing \<open>q.where({})\<close> of the non-counting case adds no clause.
\<close>

definition cursor_builder :: "config \<Rightarrow> obj \<Rightarrow> obj \<Rightarrow> bool \<Rightarrow> error + builder" where
  "cursor_builder cfg context params isCounting =
     (let q = bq (context_table context);
          shaped =
            (if length (obj_keys params) > 0 then
               (case (case obj_get params ''search'' of
                        JStr term \<Rightarrow>
                          if term \<noteq> [] then search_branch cfg params term q
                          else query_branch cfg params q
                      | _ \<Rightarrow> query_branch cfg params q) of
                  Inl e \<Rightarrow> Inl e
                | Inr q3 \<Rightarrow> Inr (apply_limit params (apply_offset params q3)))
             else Inr q)
      in case shaped of
           Inl e \<Rightarrow> Inl e
         | Inr q4 \<Rightarrow>
             Inr (if isCounting then set_method (Count (getIdKey cfg)) q4
                  else where_obj [] q4))"

section \<open>The execution engine and the adapter's state\<close>

text \<open>
  The warehouse is a parameter: given the job options and its own state it rejects the
  job (\<open>createQueryJob\<close> fails), fails it (\<open>getQueryResults\<close> fails) or returns rows.
  The world holds the warehouse state, the job options submitted so far and the lines
  written to the service logger. A job's identifier is its position in the submissions.
\<close>

type_synonym row = obj

datatype outcome = Rejected string | Failed string | Done "row list"

record job =
  job_query :: string
  job_location :: jsval

datatype log_entry = LogQuery string | JobStarted nat string | JobComplete nat

record 'db world =
  db :: 'db
  jobs :: "job list"
  logs :: "log_entry list"

type_synonym 'db engine = "job \<Rightarrow> 'db \<Rightarrow> outcome \<times> 'db"

datatype result = Rows "row list" | First "row option" | Scalar jsval

definition formatQuery :: "config \<Rightarrow> string \<Rightarrow> 'db world \<Rightarrow> string \<times> 'db world" where
  "formatQuery cfg query w =
     (let formattedQuery = replace_quotes query
      in (formattedQuery,
          if showLogs cfg then w\<lparr>logs := logs w @ [LogQuery formattedQuery]\<rparr> else w))"

text \<open>
  \<open>query\<close>, with \<open>wrap_query\<close> its first line: the hook receives the statement and
  \<open>queryOptions.location || 'US'\<close>. The options are \<open>{query: formattedQuery, location: "US", ...queryOptions}\<close>;
  every caller passes a \<open>location\<close> key, so the spread overrides the default also when
  the region is undefined. The first log line carries the parameter \<open>query\<close>.
\<close>

definition wrap_query :: "config \<Rightarrow> string \<Rightarrow> jsval \<Rightarrow> string" where
  "wrap_query cfg query_text location =
     (case queryWrapper cfg of
        Some wrap \<Rightarrow> wrap query_text (if truthy location then location else JStr ''US'')
      | None \<Rightarrow> query_text)"

definition query :: "config \<Rightarrow> 'db engine \<Rightarrow> string \<Rightarrow> jsval \<Rightarrow> 'db world
    \<Rightarrow> (error + row list) \<times> 'db world" where
  "query cfg eng query_text location w =
     (let formattedQuery = wrap_query cfg query_text location;
          options = \<lparr>job_query = formattedQuery, job_location = location\<rparr>;
          jid = length (jobs w);
          w1 = w\<lparr>jobs := jobs w @ [options]\<rparr>
      in case eng options (db w) of
           (Rejected msg, d) \<Rightarrow> (Inl (EngineSubmissionError msg), w1\<lparr>db := d\<rparr>)
         | (Failed msg, d) \<Rightarrow>
             (Inl (EngineExecutionError msg),
              w1\<lparr>db := d, logs := logs w1 @ [JobStarted jid query_text]\<rparr>)
         | (Done rows, d) \<Rightarrow>
             (Inr rows,
              w1\<lparr>db := d, logs := logs w1 @ [JobStarted jid query_text, JobComplete jid]\<rparr>))"

text \<open>\<open>this.query(this.formatQuery(compiled), { location: context?.region })\<close>.\<close>

definition submit :: "config \<Rightarrow> 'db engine \<Rightarrow> string \<Rightarrow> obj \<Rightarrow> 'db world
    \<Rightarrow> (error + row list) \<times> 'db world" where
  "submit cfg eng compiled context w =
     (case formatQuery cfg compiled w of
        (text, w1) \<Rightarrow> query cfg eng text (context_region context) w1)"

definition shift :: "row list \<Rightarrow> row option" where
  "shift rows = (case rows of [] \<Rightarrow> None | r # _ \<Rightarrow> Some r)"

section \<open>The public operations\<close>

text \<open>Every operation takes the library's compiler \<open>kx\<close> (\<open>toString\<close>) and the engine.\<close>

definition createCursor :: "config \<Rightarrow> (builder \<Rightarrow> string) \<Rightarrow> 'db engine \<Rightarrow> obj \<Rightarrow> bool
    \<Rightarrow> 'db world \<Rightarrow> (error + result) \<times> 'db world" where
  "createCursor cfg kx eng params isCounting w =
     (case retrieveContext cfg params of
        Inl e \<Rightarrow> (Inl e, w)
      | Inr (context, params1) \<Rightarrow>
          (case cursor_builder cfg context params1 isCounting of
             Inl e \<Rightarrow> (Inl e, w)
           | Inr q \<Rightarrow>
               (case submit cfg eng (kx q) context w of
                  (Inl e, w1) \<Rightarrow> (Inl e, w1)
                | (Inr rows, w1) \<Rightarrow>
                    (if isCounting then
                       (case shift rows of
                          None \<Rightarrow> (Inl TypeError, w1)
                        | Some r \<Rightarrow> (Inr (Scalar (obj_get r ''f0_'')), w1))
                     else (Inr (Rows rows), w1)))))"

definition find_op :: "config \<Rightarrow> (builder \<Rightarrow> string) \<Rightarrow> 'db engine \<Rightarrow> obj
    \<Rightarrow> 'db world \<Rightarrow> (error + result) \<times> 'db world" where
  "find_op cfg kx eng filters w = createCursor cfg kx eng filters False w"

definition count :: "config \<Rightarrow> (builder \<Rightarrow> string) \<Rightarrow> 'db engine \<Rightarrow> obj
    \<Rightarrow> 'db world \<Rightarrow> (error + result) \<times> 'db world" where
  "count cfg kx eng filters w = createCursor cfg kx eng filters True w"

definition findOne_builder :: "obj \<Rightarrow> obj \<Rightarrow> builder" where
  "findOne_builder context query1 = limit_to 1 (where_obj query1 (bq (context_table context)))"

definition findOne :: "config \<Rightarrow> (builder \<Rightarrow> string) \<Rightarrow> 'db engine \<Rightarrow> obj
    \<Rightarrow> 'db world \<Rightarrow> (error + result) \<times> 'db world" where
  "findOne cfg kx eng query0 w =
     (case retrieveContext cfg query0 of
        Inl e \<Rightarrow> (Inl e, w)
      | Inr (context, query1) \<Rightarrow>
          (case submit cfg eng (kx (findOne_builder context query1)) context w of
             (Inl e, w1) \<Rightarrow> (Inl e, w1)
           | (Inr results, w1) \<Rightarrow> (Inr (First (shift results)), w1)))"

definition findById_builder :: "config \<Rightarrow> obj \<Rightarrow> jsval \<Rightarrow> builder" where
  "findById_builder cfg parsedContext ident =
     limit_to 1 (where_obj [(getIdKey cfg, ident)] (bq (context_table parsedContext)))"

definition findById :: "config \<Rightarrow> (builder \<Rightarrow> string) \<Rightarrow> 'db engine \<Rightarrow> obj \<Rightarrow> jsval
    \<Rightarrow> 'db world \<Rightarrow> (error + result) \<times> 'db world" where
  "findById cfg kx eng context ident w =
     (case retrieveContext cfg context of
        Inl e \<Rightarrow> (Inl e, w)
      | Inr (parsedContext, _) \<Rightarrow>
          (case submit cfg eng (kx (findById_builder cfg parsedContext ident)) parsedContext w of
             (Inl e, w1) \<Rightarrow> (Inl e, w1)
           | (Inr results, w1) \<Rightarrow> (Inr (First (shift results)), w1)))"

definition findByIds :: "config \<Rightarrow> (builder \<Rightarrow> string) \<Rightarrow> 'db engine \<Rightarrow> obj \<Rightarrow> jsval list
    \<Rightarrow> 'db world \<Rightarrow> (error + result) \<times> 'db world" where
  "findByIds cfg kx eng context idList w =
     (case retrieveContext cfg context of
        Inl e \<Rightarrow> (Inl e, w)
      | Inr (parsedContext, _) \<Rightarrow>
          (case submit cfg eng
                  (kx (whereIn (getIdKey cfg) idList (bq (context_table parsedContext))))
                  parsedContext w of
             (Inl e, w1) \<Rightarrow> (Inl e, w1)
           | (Inr results, w1) \<Rightarrow> (Inr (Rows results), w1)))"

text \<open>The two formatted statements of a write followed by its read, in one body.\<close>

definition format_batch2 :: "config \<Rightarrow> string \<Rightarrow> string \<Rightarrow> 'db world \<Rightarrow> string \<times> 'db world" where
  "format_batch2 cfg s1 s2 w =
     (case formatQuery cfg s1 w of
        (f1, w1) \<Rightarrow> (case formatQuery cfg s2 w1 of (f2, w2) \<Rightarrow> (batch2 f1 f2, w2)))"

definition submit_rows :: "config \<Rightarrow> 'db engine \<Rightarrow> string \<Rightarrow> obj \<Rightarrow> 'db world
    \<Rightarrow> (error + result) \<times> 'db world" where
  "submit_rows cfg eng compiled context w =
     (case submit cfg eng compiled context w of
        (Inl e, w1) \<Rightarrow> (Inl e, w1)
      | (Inr results, w1) \<Rightarrow> (Inr (Rows results), w1))"

definition insert_op :: "config \<Rightarrow> (builder \<Rightarrow> string) \<Rightarrow> 'db engine \<Rightarrow> obj
    \<Rightarrow> 'db world \<Rightarrow> (error + result) \<times> 'db world" where
  "insert_op cfg kx eng entity w =
     (case retrieveContext cfg entity of
        Inl e \<Rightarrow> (Inl e, w)
      | Inr (parsedContext, entity1) \<Rightarrow>
          (let primaryKey = getIdKey cfg;
               t = bq (context_table parsedContext)
           in case format_batch2 cfg
                     (kx (set_method (Insert [[(primaryKey, obj_get entity1 primaryKey)]]) t))
                     (kx (whereIn primaryKey [obj_get entity1 primaryKey] t)) w of
                (compiledQuery, w1) \<Rightarrow> submit_rows cfg eng compiledQuery parsedContext w1))"

definition insertMany :: "config \<Rightarrow> (builder \<Rightarrow> string) \<Rightarrow> 'db engine \<Rightarrow> obj list
    \<Rightarrow> 'db world \<Rightarrow> (error + result) \<times> 'db world" where
  "insertMany cfg kx eng entities w =
     (case retrieveContext_array cfg entities of
        Inl e \<Rightarrow> (Inl e, w)
      | Inr (None, _) \<Rightarrow> (Inl MissingContext, w)
      | Inr (Some parsedContext, entities1) \<Rightarrow>
          (let primaryKey = getIdKey cfg;
               t = bq (context_table parsedContext)
           in case format_batch2 cfg
                     (kx (set_method (Insert entities1) t))
                     (kx (whereIn primaryKey (map (\<lambda>entity. obj_get entity primaryKey) entities1) t))
                     w of
                (compiledQuery, w1) \<Rightarrow> submit_rows cfg eng compiledQuery parsedContext w1))"

definition updateMany :: "config \<Rightarrow> (builder \<Rightarrow> string) \<Rightarrow> 'db engine \<Rightarrow> obj \<Rightarrow> obj
    \<Rightarrow> 'db world \<Rightarrow> (error + result) \<times> 'db world" where
  "updateMany cfg kx eng where0 update w =
     (case retrieveContext cfg update of
        Inl e \<Rightarrow> (Inl e, w)
      | Inr (parsedContext, update1) \<Rightarrow>
          (let t = where_obj where0 (bq (context_table parsedContext))
           in case format_batch2 cfg (kx (set_method (Update update1) t)) (kx t) w of
                (compiledQuery, w1) \<Rightarrow> submit_rows cfg eng compiledQuery parsedContext w1))"

definition updateById :: "config \<Rightarrow> (builder \<Rightarrow> string) \<Rightarrow> 'db engine \<Rightarrow> jsval \<Rightarrow> obj
    \<Rightarrow> 'db world \<Rightarrow> (error + result) \<times> 'db world" where
  "updateById cfg kx eng ident update w =
     (case retrieveContext cfg update of
        Inl e \<Rightarrow> (Inl e, w)
      | Inr (parsedContext, update1) \<Rightarrow>
          (let t = where_obj [(getIdKey cfg, ident)] (bq (context_table parsedContext))
           in case format_batch2 cfg (kx (set_method (Update update1) t)) (kx t) w of
                (compiledQuery, w1) \<Rightarrow> submit_rows cfg eng compiledQuery parsedContext w1))"

text \<open>
  The common body of \<open>removeMany\<close> and \<open>removeById\<close> once the where object is fixed:
  both statements are compiled and formatted, then the select runs as one job and the
  delete as the next, and the rows of the select are returned.
\<close>

definition remove_where :: "config \<Rightarrow> (builder \<Rightarrow> string) \<Rightarrow> 'db engine \<Rightarrow> obj \<Rightarrow> obj
    \<Rightarrow> 'db world \<Rightarrow> (error + result) \<times> 'db world" where
  "remove_where cfg kx eng parsedContext where1 w =
     (let t = where_obj where1 (bq (context_table parsedContext))
      in case formatQuery cfg (kx t) w of
           (f1, w1) \<Rightarrow>
             (case formatQuery cfg (kx (set_method Del t)) w1 of
                (f2, w2) \<Rightarrow>
                  (let compiledPreQuery = batch1 f1;
                       compiledQuery = batch1 f2
                   in case submit cfg eng compiledPreQuery parsedContext w2 of
                        (Inl e, w3) \<Rightarrow> (Inl e, w3)
                      | (Inr entitiesToBeRemoved, w3) \<Rightarrow>
                          (case submit cfg eng compiledQuery parsedContext w3 of
                             (Inl e, w4) \<Rightarrow> (Inl e, w4)
                           | (Inr _, w4) \<Rightarrow> (Inr (Rows entitiesToBeRemoved), w4)))))"

definition removeMany :: "config \<Rightarrow> (builder \<Rightarrow> string) \<Rightarrow> 'db engine \<Rightarrow> obj
    \<Rightarrow> 'db world \<Rightarrow> (error + result) \<times> 'db world" where
  "removeMany cfg kx eng where0 w =
     (case retrieveContext cfg where0 of
        Inl e \<Rightarrow> (Inl e, w)
      | Inr (parsedContext, where1) \<Rightarrow> remove_where cfg kx eng parsedContext where1 w)"

definition removeById :: "config \<Rightarrow> (builder \<Rightarrow> string) \<Rightarrow> 'db engine \<Rightarrow> obj \<Rightarrow> jsval
    \<Rightarrow> 'db world \<Rightarrow> (error + result) \<times> 'db world" where
  "removeById cfg kx eng context ident w =
     (case retrieveContext cfg context of
        Inl e \<Rightarrow> (Inl e, w)
      | Inr (parsedContext, _) \<Rightarrow>
          remove_where cfg kx eng parsedContext [(getIdKey cfg, ident)] w)"

section \<open>Reading a built statement\<close>

text \<open>
  How the library and the engine read a builder, for the concrete statements below. The
  library compiles the where clauses in call order, drops the connective of the first
  and writes the connective of each later clause before it, with no parentheses; an
  SQL engine reads such a chain with \<open>and\<close> binding tighter than \<open>or\<close>.
\<close>

fun like_match :: "string \<Rightarrow> string \<Rightarrow> bool" where
  "like_match [] [] = True"
| "like_match [] (c # s) = False"
| "like_match (p # ps) [] = (p = CHR ''%'' \<and> like_match ps [])"
| "like_match (p # ps) (c # s) =
     (if p = CHR ''%'' then like_match ps (c # s) \<or> like_match (p # ps) s
      else (p = CHR ''_'' \<or> p = c) \<and> like_match ps s)"

fun cond_holds :: "row \<Rightarrow> cond \<Rightarrow> bool" where
  "cond_holds r (Eq k v) = (\<not> is_nullish v \<and> obj_get r k = v)"
| "cond_holds r (Like k pat) = (case obj_get r k of JStr s \<Rightarrow> like_match pat s | _ \<Rightarrow> False)"
| "cond_holds r (In k vs) = (obj_get r k \<in> set (filter (\<lambda>v. \<not> is_nullish v) vs))"

fun chain_holds :: "row \<Rightarrow> (connective \<times> cond) list \<Rightarrow> bool \<Rightarrow> bool" where
  "chain_holds r [] acc = acc"
| "chain_holds r ((And, c) # cs) acc = chain_holds r cs (acc \<and> cond_holds r c)"
| "chain_holds r ((Or, c) # cs) acc = (acc \<or> chain_holds r cs (cond_holds r c))"

fun where_holds :: "row \<Rightarrow> (connective \<times> cond) list \<Rightarrow> bool" where
  "where_holds r [] = True"
| "where_holds r (c # cs) = chain_holds r cs (cond_holds r (snd c))"

text \<open>
  The where clause the specification describes for a search with a structured query:
  every equality of the query, and one of the per-field \<open>like\<close> clauses.
\<close>

definition spec_search_where :: "obj \<Rightarrow> string \<Rightarrow> string list \<Rightarrow> row \<Rightarrow> bool" where
  "spec_search_where query_eqs term fieldList r =
     (list_all (\<lambda>kv. cond_holds r (Eq (fst kv) (snd kv))) query_eqs \<and>
      list_ex (\<lambda>field. cond_holds r (Like field (like_pattern term))) fieldList)"

text \<open>
  The text the library's compiler gives for the PostgreSQL client, on select, count and
  delete statements over numbers, strings, booleans and \<open>null\<close>: identifiers in double
  quotes, split at dots; strings in single quotes with quote and backslash doubled.
\<close>

fun join_with :: "string \<Rightarrow> string list \<Rightarrow> string" where
  "join_with sep [] = []"
| "join_with sep [x] = x"
| "join_with sep (x # y # ys) = x @ sep @ join_with sep (y # ys)"

definition pg_ident :: "string \<Rightarrow> string" where
  "pg_ident name =
     join_with ''.'' (map (\<lambda>part. dquote # part @ [dquote]) (split_on CHR ''.'' name))"

definition pg_string :: "string \<Rightarrow> string" where
  "pg_string s =
     (if CHR 0x5C \<in> set s then ''E'' else []) @
     CHR 0x27 # concat (map (\<lambda>c. if c = CHR 0x27 \<or> c = CHR 0x5C then [c, c] else [c]) s)
       @ [CHR 0x27]"

fun pg_value :: "jsval \<Rightarrow> string" where
  "pg_value (JNum n) = show_int n"
| "pg_value (JStr s) = pg_string s"
| "pg_value (JBool b) = (if b then ''true'' else ''false'')"
| "pg_value _ = ''NULL''"

fun pg_cond :: "cond \<Rightarrow> string" where
  "pg_cond (Eq k v) =
     (if v = JNull then pg_ident k @ '' is null'' else pg_ident k @ '' = '' @ pg_value v)"
| "pg_cond (Like k pat) = pg_ident k @ '' like '' @ pg_string pat"
| "pg_cond (In k vs) =
     (if vs = [] then ''1 = 0''
      else pg_ident k @ '' in ('' @ join_with '', '' (map pg_value vs) @ '')'')"

fun pg_chain :: "(connective \<times> cond) list \<Rightarrow> string" where
  "pg_chain [] = []"
| "pg_chain ((And, c) # cs) = '' and '' @ pg_cond c @ pg_chain cs"
| "pg_chain ((Or, c) # cs) = '' or '' @ pg_cond c @ pg_chain cs"

fun pg_where :: "(connective \<times> cond) list \<Rightarrow> string" where
  "pg_where [] = []"
| "pg_where (c # cs) = '' where '' @ pg_cond (snd c) @ pg_chain cs"

definition pg_order :: "(string \<times> direction) list \<Rightarrow> string" where
  "pg_order os =
     (if os = [] then []
      else '' order by '' @
           join_with '', ''
             (map (\<lambda>od. pg_ident (fst od) @ (case snd od of Asc \<Rightarrow> '' asc'' | Desc \<Rightarrow> '' desc'')) os))"

definition pg_tail :: "builder \<Rightarrow> string" where
  "pg_tail q =
     pg_where (b_wheres q) @ pg_order (b_orders q) @
     (case b_limit q of None \<Rightarrow> [] | Some n \<Rightarrow> '' limit '' @ show_int n) @
     (case b_offset q of None \<Rightarrow> [] | Some n \<Rightarrow> '' offset '' @ show_int n)"

definition pg_assign :: "obj \<Rightarrow> string" where
  "pg_assign ob = join_with '', '' (map (\<lambda>kv. pg_ident (fst kv) @ '' = '' @ pg_value (snd kv)) ob)"

definition pg_tuple :: "obj \<Rightarrow> string" where
  "pg_tuple ob = ''('' @ join_with '', '' (map (\<lambda>kv. pg_value (snd kv)) ob) @ '')''"

definition pg_toString :: "builder \<Rightarrow> string" where
  "pg_toString q =
     (case b_method q of
        Select \<Rightarrow> ''select * from '' @ pg_ident (b_table q) @ pg_tail q
      | Count col \<Rightarrow>
          ''select count('' @ pg_ident col @ '') from '' @ pg_ident (b_table q) @ pg_tail q
      | Del \<Rightarrow> ''delete from '' @ pg_ident (b_table q) @ pg_where (b_wheres q)
      | Update ob \<Rightarrow>
          ''update '' @ pg_ident (b_table q) @ '' set '' @ pg_assign ob @ pg_where (b_wheres q)
      | Insert rows \<Rightarrow>
          ''insert into '' @ pg_ident (b_table q) @ '' ('' @
          join_with '', '' (map pg_ident (case rows of [] \<Rightarrow> [] | r # _ \<Rightarrow> obj_keys r)) @
          '') values '' @ join_with '', '' (map pg_tuple rows))"

text \<open>The job options \<open>submit\<close> hands to the engine for a compiled text.\<close>

definition job_of :: "config \<Rightarrow> string \<Rightarrow> obj \<Rightarrow> job" where
  "job_of cfg compiled context =
     \<lparr>job_query = wrap_query cfg (replace_quotes compiled) (context_region context),
      job_location = context_region context\<rparr>"

section \<open>A concrete configuration and warehouse\<close>

text \<open>
  The inputs of the concrete statements below: a configuration with primary key \<open>pk\<close>
  and the column \<open>secret\<close> on the denylist, a context, and a warehouse whose one table
  holds two rows that both carry the key \<open>X\<close>. The warehouse answers a delete by
  emptying the table, a select limited to one row with the first row, and any other
  statement with every row.
\<close>

definition demo_config :: config where
  "demo_config =
     \<lparr>getTableName = (\<lambda>context. ''ds.compiled''), getIdKey = ''pk'',
      queryWrapper = None, queryBlacklist = Some [''secret''], showLogs = False\<rparr>"

definition pragma_config :: config where
  "pragma_config = demo_config\<lparr>queryWrapper := Some (\<lambda>q location. ''-- pragma '' @ q)\<rparr>"

definition demo_context :: jsval where
  "demo_context = JObj [(''org'', JStr ''o1''), (''impact'', JStr ''i1''), (''region'', JStr ''EU'')]"

definition demo_rows :: "row list" where
  "demo_rows = [[(''pk'', JStr ''X''), (''n'', JNum 1)], [(''pk'', JStr ''X''), (''n'', JNum 2)]]"

definition demo_world :: "row list world" where
  "demo_world = \<lparr>db = demo_rows, jobs = [], logs = []\<rparr>"

fun starts_with :: "string \<Rightarrow> string \<Rightarrow> bool" where
  "starts_with [] s = True"
| "starts_with (p # ps) [] = False"
| "starts_with (p # ps) (c # s) = (p = c \<and> starts_with ps s)"

fun contains :: "string \<Rightarrow> string \<Rightarrow> bool" where
  "contains pat [] = starts_with pat []"
| "contains pat (c # s) = (starts_with pat (c # s) \<or> contains pat s)"

definition demo_engine :: "row list engine" where
  "demo_engine j d =
     (if contains ''delete from'' (job_query j) then (Done [], [])
      else if contains ''limit 1'' (job_query j) then (Done (take 1 d), d)
      else (Done d, d))"

text \<open>A limit or offset value that makes \<open>createCursor\<close> emit the clause.\<close>

definition positive_number :: "jsval \<Rightarrow> bool" where
  "positive_number v = (case v of JNum n \<Rightarrow> n > 0 | _ \<Rightarrow> False)"

text \<open>A filter whose limit is zero and whose offset is a string, and its parsed context.\<close>

definition demo_filter :: obj where
  "demo_filter = [(ctx_key, demo_context), (''limit'', JNum 0), (''offset'', JStr ''2'')]"

definition demo_parsed :: obj where
  "demo_parsed = [(''org'', JStr ''o1''), (''impact'', JStr ''i1''), (''region'', JStr ''EU''),
     (''tableName'', JStr ''ds.compiled'')]"

text \<open>A payload that carries the context and nothing else.\<close>

definition demo_payload :: obj where
  "demo_payload = [(ctx_key, demo_context)]"

text \<open>An engine that rejects every job.\<close>

definition rejecting_engine :: "row list engine" where
  "rejecting_engine j d = (Rejected ''quota'', d)"

text \<open>The rows a result holds, whatever its shape.\<close>

definition result_rows :: "result \<Rightarrow> row list" where
  "result_rows r =
     (case r of Rows rs \<Rightarrow> rs | First None \<Rightarrow> [] | First (Some x) \<Rightarrow> [x] | Scalar _ \<Rightarrow> [])"

text \<open>The builder of \<open>removeById\<close> for the key \<open>X\<close>, before the statement kind is set.\<close>

definition demo_pk_where :: builder where
  "demo_pk_where = where_obj [(getIdKey demo_config, JStr ''X'')] (bq (context_table demo_parsed))"

text \<open>Text in backticks and in single quotes, for writing expected statements.\<close>

definition bt :: "string \<Rightarrow> string" where
  "bt s = backtick # s @ [backtick]"

definition sq :: "string \<Rightarrow> string" where
  "sq s = CHR 0x27 # s @ [CHR 0x27]"

text \<open>
  The filter \<open>{query: {age: 7}, search: "abc", searchFields: ["name", "tag"]}\<close> after
  \<open>retrieveContext\<close>, and a row whose age is not 7 but whose name holds the term.
\<close>

definition search_filter :: obj where
  "search_filter =
     [(''query'', JObj [(''age'', JNum 7)]), (''search'', JStr ''abc''),
      (''searchFields'', JArr [JStr ''name'', JStr ''tag''])]"

definition other_age_row :: row where
  "other_age_row = [(''age'', JNum 8), (''name'', JStr ''xabcx''), (''tag'', JStr '''')]"

text \<open>An engine whose answer has no row.\<close>

definition empty_engine :: "row list engine" where
  "empty_engine j d = (Done [], d)"

text \<open>The filter \<open>{query: {id: 5}}\<close> and the builder find makes of it.\<close>

definition id_filter :: obj where
  "id_filter = [(''query'', JObj [(''id'', JNum 5)])]"

definition id_builder :: builder where
  "id_builder = (bq ''ds.compiled'')
     \<lparr>b_wheres := [(And, Eq ''id'' (JNum 5)), (And, Eq ''pk'' (JNum 5))]\<rparr>"

section \<open>Properties of the quoting rewrite\<close>

lemma replace_quotes_append:
  "replace_quotes (a @ b) = replace_quotes a @ replace_quotes b"
  by (simp add: replace_quotes_def)

lemma replace_quotes_idem:
  "replace_quotes (replace_quotes s) = replace_quotes s"
  by (simp add: replace_quotes_def dquote_def backtick_def)

lemma replace_quotes_Cons:
  "replace_quotes (c # s) = (if c = dquote then backtick else c) # replace_quotes s"
  by (simp add: replace_quotes_def)

lemma formatQuery_text: "fst (formatQuery cfg s w) = replace_quotes s"
  by (simp add: formatQuery_def Let_def)

lemma format_batch2_text:
  "fst (format_batch2 cfg s1 s2 w) = batch2 (replace_quotes s1) (replace_quotes s2)"
  by (simp add: format_batch2_def formatQuery_def Let_def)

text \<open>
  C10. The rewrite is idempotent, for the bare replacement and for \<open>formatQuery\<close> in any
  two worlds. Formatting the two inner statements first and the composed two-statement
  body afterwards, as \<open>insert\<close>, \<open>insertMany\<close>, \<open>updateMany\<close> and \<open>updateById\<close> do,
  gives the same text as formatting the body composed of the unformatted statements
  once; so does the one-statement body of \<open>removeMany\<close> and \<open>removeById\<close>.
\<close>

theorem formatQuery_idempotent_and_batch:
  "replace_quotes (replace_quotes s) = replace_quotes s \<and>
   fst (formatQuery cfg (fst (formatQuery cfg s w)) w') = fst (formatQuery cfg s w) \<and>
   fst (formatQuery cfg (fst (format_batch2 cfg s1 s2 w)) w')
     = fst (formatQuery cfg (batch2 s1 s2) w') \<and>
   replace_quotes (batch2 (replace_quotes s1) (replace_quotes s2))
     = replace_quotes (batch2 s1 s2) \<and>
   replace_quotes (batch1 (replace_quotes s1)) = replace_quotes (batch1 s1)"
  by (simp add: formatQuery_text format_batch2_text batch2_def batch1_def
      replace_quotes_append replace_quotes_Cons replace_quotes_idem)

section \<open>The tenant context\<close>

lemma retrieveContext_missing:
  "is_nullish (obj_get p ctx_key) \<Longrightarrow> retrieveContext cfg p = Inl MissingContext"
  by (simp add: retrieveContext_def)

lemma retrieveContext_present:
  "obj_get p ctx_key = JObj fs \<Longrightarrow>
   retrieveContext cfg p =
     Inr (obj_set fs ''tableName'' (JStr (getTableName cfg (JObj fs))), obj_delete p ctx_key)"
  by (simp add: retrieveContext_def)

lemma retrieveContext_Inr:
  "retrieveContext cfg p = Inr (c, p') \<Longrightarrow> p' = obj_delete p ctx_key"
  by (auto simp: retrieveContext_def Let_def split: if_splits jsval.splits)

lemma obj_delete_keys: "k \<notin> set (obj_keys (obj_delete ob k))"
  by (auto simp: obj_delete_def obj_keys_def)

lemma obj_get_deleted: "obj_get (obj_delete ob k) k = JUndefined"
proof -
  have "map_of (obj_delete ob k) k = None"
    using obj_delete_keys [of k ob] by (simp add: map_of_eq_None_iff obj_keys_def)
  then show ?thesis by (simp add: obj_get_def)
qed

lemma retrieveContext_each_snd:
  "retrieveContext_each cfg ps = Inr rs \<Longrightarrow> map snd rs = map (\<lambda>p. obj_delete p ctx_key) ps"
proof (induction ps arbitrary: rs)
  case Nil
  then show ?case by simp
next
  case (Cons p ps)
  then show ?case
    by (auto split: sum.splits dest: retrieveContext_Inr)
qed

lemma retrieveContext_array_Inr:
  "retrieveContext_array cfg ps = Inr (c, ps') \<Longrightarrow> ps' = map (\<lambda>p. obj_delete p ctx_key) ps"
  by (auto simp: retrieveContext_array_def split: sum.splits dest: retrieveContext_each_snd)

lemma retrieveContext_array_missing:
  "is_nullish (obj_get p ctx_key) \<Longrightarrow> retrieveContext_array cfg (p # ps) = Inl MissingContext"
  by (simp add: retrieveContext_array_def retrieveContext_missing)

lemma where_columns_where_obj:
  "where_columns (where_obj ob q) = where_columns q @ obj_keys ob"
  by (simp add: where_columns_def where_obj_def obj_keys_def comp_def)

lemma where_columns_findOne: "where_columns (findOne_builder c ob) = obj_keys ob"
  by (simp add: findOne_builder_def where_columns_def where_obj_def obj_keys_def comp_def limit_to_def bq_def)

section \<open>Limit and offset\<close>

lemma obj_get_delete_other: "k \<noteq> k' \<Longrightarrow> obj_get (obj_delete ob k') k = obj_get ob k"
  by (induction ob) (auto simp: obj_get_def obj_delete_def)

lemma obj_delete_commute: "obj_delete (obj_delete ob a) b = obj_delete (obj_delete ob b) a"
  by (induction ob) (auto simp: obj_delete_def)

lemma obj_get_when_only_key:
  assumes "obj_delete ob k' = []" and "k \<noteq> k'"
  shows "obj_get ob k = JUndefined"
proof -
  have "obj_get ob k = obj_get (obj_delete ob k') k"
    using assms(2) by (simp add: obj_get_delete_other)
  then show ?thesis by (simp add: assms(1) obj_get_def)
qed

lemma fold_delete_Nil: "fold (\<lambda>k ob. obj_delete ob k) ks [] = []"
  by (induction ks) (simp_all add: obj_delete_def)

lemma migrate_undefined: "migrateIdParamToPrimaryKey cfg JUndefined = []"
  by (simp add: migrateIdParamToPrimaryKey_def obj_get_def fold_delete_Nil)

lemma where_obj_Nil: "where_obj [] q = q"
  by (simp add: where_obj_def)

lemma sort_if_given_delete:
  "k \<noteq> ''sort'' \<Longrightarrow> sort_if_given (obj_delete params k) = sort_if_given params"
  by (rule ext) (simp add: sort_if_given_def obj_get_delete_other)

lemma search_branch_delete:
  assumes "k \<noteq> ''sort''" "k \<noteq> ''query''" "k \<noteq> ''searchFields''"
  shows "search_branch cfg (obj_delete params k) t q = search_branch cfg params t q"
  using assms
  by (simp add: search_branch_def obj_get_delete_other sort_if_given_delete Let_def
      split: sum.splits)

lemma query_branch_delete:
  assumes "k \<noteq> ''sort''" "k \<noteq> ''query''"
  shows "query_branch cfg (obj_delete params k) q = query_branch cfg params q"
  using assms by (simp add: query_branch_def obj_get_delete_other sort_if_given_delete)

lemma apply_limit_ignored:
  "\<not> positive_number (obj_get params ''limit'') \<Longrightarrow> apply_limit params q = q"
  by (auto simp: apply_limit_def positive_number_def split: jsval.splits)

lemma apply_offset_ignored:
  "\<not> positive_number (obj_get params ''offset'') \<Longrightarrow> apply_offset params q = q"
  by (auto simp: apply_offset_def positive_number_def split: jsval.splits)

lemma apply_limit_deleted: "apply_limit (obj_delete params ''limit'') q = q"
  by (simp add: apply_limit_def obj_get_deleted)

lemma apply_offset_deleted: "apply_offset (obj_delete params ''offset'') q = q"
  by (simp add: apply_offset_def obj_get_deleted)

lemma apply_offset_delete_limit:
  "apply_offset (obj_delete params ''limit'') q = apply_offset params q"
  by (simp add: apply_offset_def obj_get_delete_other)

lemma apply_limit_delete_offset:
  "apply_limit (obj_delete params ''offset'') q = apply_limit params q"
  by (simp add: apply_limit_def obj_get_delete_other)

text \<open>A payload whose only key is the limit or the offset is shaped like the empty one.\<close>

lemma query_branch_only_key:
  assumes "obj_delete params k = []" and "k = ''limit'' \<or> k = ''offset''"
  shows "query_branch cfg params q = Inr q"
proof -
  have "obj_get params ''sort'' = JUndefined" "obj_get params ''query'' = JUndefined"
    using assms by (auto intro: obj_get_when_only_key)
  then show ?thesis
    by (simp add: query_branch_def sort_if_given_def migrate_undefined where_obj_Nil)
qed

lemma cursor_builder_delete_limit:
  assumes "\<not> positive_number (obj_get params ''limit'')"
  shows "cursor_builder cfg c (obj_delete params ''limit'') isCounting
         = cursor_builder cfg c params isCounting"
proof (cases "obj_delete params ''limit'' = []")
  case True
  show ?thesis
  proof (cases "params = []")
    case True
    then show ?thesis by (simp add: obj_delete_def)
  next
    case False
    have o: "obj_get params ''offset'' = JUndefined"
      using True by (auto intro: obj_get_when_only_key)
    have s: "obj_get params ''search'' = JUndefined"
      using True by (auto intro: obj_get_when_only_key)
    from False True assms show ?thesis
      by (simp add: cursor_builder_def obj_keys_def apply_limit_ignored apply_offset_def o s
          query_branch_only_key [OF True])
  qed
next
  case False
  then have "params \<noteq> []" by (auto simp: obj_delete_def)
  with False assms show ?thesis
    by (simp add: cursor_builder_def obj_keys_def obj_get_delete_other search_branch_delete
        query_branch_delete apply_limit_ignored apply_limit_deleted apply_offset_delete_limit
        Let_def cong: jsval.case_cong sum.case_cong if_cong)
qed

lemma cursor_builder_delete_offset:
  assumes "\<not> positive_number (obj_get params ''offset'')"
  shows "cursor_builder cfg c (obj_delete params ''offset'') isCounting
         = cursor_builder cfg c params isCounting"
proof (cases "obj_delete params ''offset'' = []")
  case True
  show ?thesis
  proof (cases "params = []")
    case True
    then show ?thesis by (simp add: obj_delete_def)
  next
    case False
    have o: "obj_get params ''limit'' = JUndefined"
      using True by (auto intro: obj_get_when_only_key)
    have s: "obj_get params ''search'' = JUndefined"
      using True by (auto intro: obj_get_when_only_key)
    from False True assms show ?thesis
      by (simp add: cursor_builder_def obj_keys_def apply_offset_ignored apply_limit_def o s
          query_branch_only_key [OF True])
  qed
next
  case False
  then have "params \<noteq> []" by (auto simp: obj_delete_def)
  with False assms show ?thesis
    by (simp add: cursor_builder_def obj_keys_def obj_get_delete_other search_branch_delete
        query_branch_delete apply_offset_ignored apply_offset_deleted apply_limit_delete_offset
        Let_def cong: jsval.case_cong sum.case_cong if_cong)
qed

lemma order_by_keys_keeps:
  "order_by_keys kvs q = Inr q' \<Longrightarrow> b_limit q' = b_limit q \<and> b_offset q' = b_offset q"
proof (induction kvs arbitrary: q)
  case Nil
  then show ?case by simp
next
  case (Cons kv kvs)
  then show ?case
    by (fastforce simp: orderBy_def split: sum.splits)
qed

lemma transformSort_keeps:
  "transformSort q s = Inr q' \<Longrightarrow> b_limit q' = b_limit q \<and> b_offset q' = b_offset q"
  by (auto simp: transformSort_def split: sum.splits jsval.splits dest: order_by_keys_keeps)

lemma sort_if_given_keeps:
  "sort_if_given params q = Inr q' \<Longrightarrow> b_limit q' = b_limit q \<and> b_offset q' = b_offset q"
  by (auto simp: sort_if_given_def split: if_splits dest: transformSort_keeps)

lemma fold_orWhere_keeps:
  "b_limit (fold (\<lambda>field. orWhere_like field pat) fs q) = b_limit q \<and>
   b_offset (fold (\<lambda>field. orWhere_like field pat) fs q) = b_offset q"
  by (induction fs arbitrary: q) (simp_all add: orWhere_like_def)

lemma where_obj_keeps:
  "b_limit (where_obj ob q) = b_limit q \<and> b_offset (where_obj ob q) = b_offset q"
  by (simp add: where_obj_def)

lemma search_branch_keeps:
  "search_branch cfg params t q = Inr q' \<Longrightarrow> b_limit q' = b_limit q \<and> b_offset q' = b_offset q"
  by (auto simp: search_branch_def Let_def fold_orWhere_keeps where_obj_keeps
      split: sum.splits if_splits dest!: sort_if_given_keeps)

lemma query_branch_keeps:
  "query_branch cfg params q = Inr q' \<Longrightarrow> b_limit q' = b_limit q \<and> b_offset q' = b_offset q"
  by (auto simp: query_branch_def where_obj_keeps dest!: sort_if_given_keeps)

lemma apply_offset_limit: "b_limit (apply_offset params q) = b_limit q"
  by (simp add: apply_offset_def offset_by_def split: jsval.splits)

lemma apply_limit_offset: "b_offset (apply_limit params q) = b_offset q"
  by (simp add: apply_limit_def limit_to_def split: jsval.splits)

lemma finish_keeps:
  "b_limit (if isCounting then set_method m q else where_obj [] q) = b_limit q \<and>
   b_offset (if isCounting then set_method m q else where_obj [] q) = b_offset q"
  by (simp add: set_method_def where_obj_def)

lemma shaped_source:
  assumes "(case obj_get params ''search'' of
              JStr term \<Rightarrow> if term \<noteq> [] then search_branch cfg params term q
                           else query_branch cfg params q
            | _ \<Rightarrow> query_branch cfg params q) = Inr q'"
  shows "b_limit q' = b_limit q \<and> b_offset q' = b_offset q"
  using assms
  by (auto split: jsval.splits if_splits dest: search_branch_keeps query_branch_keeps)

lemma cursor_builder_no_limit:
  assumes "\<not> positive_number (obj_get params ''limit'')"
    and "cursor_builder cfg c params isCounting = Inr q"
  shows "b_limit q = None"
proof (cases "length (obj_keys params) > 0")
  case False
  with assms(2) show ?thesis
    by (auto simp: cursor_builder_def Let_def bq_def set_method_def where_obj_def)
next
  case True
  with assms(2) obtain q3 where
    s: "(case obj_get params ''search'' of
              JStr term \<Rightarrow> if term \<noteq> [] then search_branch cfg params term (bq (context_table c))
                           else query_branch cfg params (bq (context_table c))
            | _ \<Rightarrow> query_branch cfg params (bq (context_table c))) = Inr q3"
    and q: "q = (if isCounting then set_method (Count (getIdKey cfg))
                   (apply_limit params (apply_offset params q3))
                 else where_obj [] (apply_limit params (apply_offset params q3)))"
    by (auto simp: cursor_builder_def Let_def split: sum.splits)
  have "b_limit q3 = None" using shaped_source [OF s] by (simp add: bq_def)
  then show ?thesis
    using assms(1) by (simp add: q finish_keeps apply_limit_ignored apply_offset_limit)
qed

lemma cursor_builder_no_offset:
  assumes "\<not> positive_number (obj_get params ''offset'')"
    and "cursor_builder cfg c params isCounting = Inr q"
  shows "b_offset q = None"
proof (cases "length (obj_keys params) > 0")
  case False
  with assms(2) show ?thesis
    by (auto simp: cursor_builder_def Let_def bq_def set_method_def where_obj_def)
next
  case True
  with assms(2) obtain q3 where
    s: "(case obj_get params ''search'' of
              JStr term \<Rightarrow> if term \<noteq> [] then search_branch cfg params term (bq (context_table c))
                           else query_branch cfg params (bq (context_table c))
            | _ \<Rightarrow> query_branch cfg params (bq (context_table c))) = Inr q3"
    and q: "q = (if isCounting then set_method (Count (getIdKey cfg))
                   (apply_limit params (apply_offset params q3))
                 else where_obj [] (apply_limit params (apply_offset params q3)))"
    by (auto simp: cursor_builder_def Let_def split: sum.splits)
  have "b_offset q3 = None" using shaped_source [OF s] by (simp add: bq_def)
  then show ?thesis
    using assms(1) by (simp add: q finish_keeps apply_offset_ignored apply_limit_offset)
qed

lemma retrieveContext_delete:
  assumes "k \<noteq> ctx_key"
  shows "retrieveContext cfg (obj_delete p k) =
         (case retrieveContext cfg p of
            Inl e \<Rightarrow> Inl e
          | Inr r \<Rightarrow> Inr (fst r, obj_delete (snd r) k))"
  using assms
  by (auto simp: retrieveContext_def obj_get_delete_other obj_delete_commute [of p k] Let_def
      split: jsval.splits)

lemma createCursor_delete_limit:
  assumes "\<not> positive_number (obj_get p ''limit'')"
  shows "createCursor cfg kx eng (obj_delete p ''limit'') isCounting w
         = createCursor cfg kx eng p isCounting w"
proof (cases "retrieveContext cfg p")
  case (Inl e)
  then show ?thesis
    by (simp add: createCursor_def retrieveContext_delete ctx_key_def)
next
  case (Inr r)
  obtain c p' where r: "r = (c, p')" by (cases r)
  have p': "p' = obj_delete p ctx_key"
    using Inr r by (auto dest: retrieveContext_Inr)
  have "\<not> positive_number (obj_get p' ''limit'')"
    using assms by (simp add: p' obj_get_delete_other ctx_key_def)
  then have "cursor_builder cfg c (obj_delete p' ''limit'') isCounting
             = cursor_builder cfg c p' isCounting"
    by (rule cursor_builder_delete_limit)
  then show ?thesis
    using Inr r by (simp add: createCursor_def retrieveContext_delete ctx_key_def)
qed

lemma createCursor_delete_offset:
  assumes "\<not> positive_number (obj_get p ''offset'')"
  shows "createCursor cfg kx eng (obj_delete p ''offset'') isCounting w
         = createCursor cfg kx eng p isCounting w"
proof (cases "retrieveContext cfg p")
  case (Inl e)
  then show ?thesis
    by (simp add: createCursor_def retrieveContext_delete ctx_key_def)
next
  case (Inr r)
  obtain c p' where r: "r = (c, p')" by (cases r)
  have p': "p' = obj_delete p ctx_key"
    using Inr r by (auto dest: retrieveContext_Inr)
  have "\<not> positive_number (obj_get p' ''offset'')"
    using assms by (simp add: p' obj_get_delete_other ctx_key_def)
  then have "cursor_builder cfg c (obj_delete p' ''offset'') isCounting
             = cursor_builder cfg c p' isCounting"
    by (rule cursor_builder_delete_offset)
  then show ?thesis
    using Inr r by (simp add: createCursor_def retrieveContext_delete ctx_key_def)
qed

text \<open>
  C8. A limit that is not a positive number leaves the statement of find and count
  without a limit, and the call behaves as on the filter without the \<open>limit\<close> key: the
  same result, the same submissions, and an error only where that filter gives one.
  The same holds for the offset.
\<close>

theorem nonpositive_limit_offset_ignored:
  "(\<not> positive_number (obj_get filters ''limit'') \<longrightarrow>
      createCursor cfg kx eng (obj_delete filters ''limit'') isCounting w
        = createCursor cfg kx eng filters isCounting w \<and>
      (retrieveContext cfg filters = Inr (c, params) \<longrightarrow>
       cursor_builder cfg c params isCounting = Inr q \<longrightarrow> b_limit q = None)) \<and>
   (\<not> positive_number (obj_get filters ''offset'') \<longrightarrow>
      createCursor cfg kx eng (obj_delete filters ''offset'') isCounting w
        = createCursor cfg kx eng filters isCounting w \<and>
      (retrieveContext cfg filters = Inr (c, params) \<longrightarrow>
       cursor_builder cfg c params isCounting = Inr q \<longrightarrow> b_offset q = None))"
proof (intro conjI impI)
  assume n: "\<not> positive_number (obj_get filters ''limit'')"
  show "createCursor cfg kx eng (obj_delete filters ''limit'') isCounting w
        = createCursor cfg kx eng filters isCounting w"
    using n by (rule createCursor_delete_limit)
  assume r: "retrieveContext cfg filters = Inr (c, params)"
    and b: "cursor_builder cfg c params isCounting = Inr q"
  have "params = obj_delete filters ctx_key" using r by (rule retrieveContext_Inr)
  then have "\<not> positive_number (obj_get params ''limit'')"
    using n by (simp add: obj_get_delete_other ctx_key_def)
  then show "b_limit q = None" using b by (rule cursor_builder_no_limit)
next
  assume n: "\<not> positive_number (obj_get filters ''offset'')"
  show "createCursor cfg kx eng (obj_delete filters ''offset'') isCounting w
        = createCursor cfg kx eng filters isCounting w"
    using n by (rule createCursor_delete_offset)
  assume r: "retrieveContext cfg filters = Inr (c, params)"
    and b: "cursor_builder cfg c params isCounting = Inr q"
  have "params = obj_delete filters ctx_key" using r by (rule retrieveContext_Inr)
  then have "\<not> positive_number (obj_get params ''offset'')"
    using n by (simp add: obj_get_delete_other ctx_key_def)
  then show "b_offset q = None" using b by (rule cursor_builder_no_offset)
qed

lemma demo_filter_context:
  "retrieveContext demo_config demo_filter
     = Inr (demo_parsed, [(''limit'', JNum 0), (''offset'', JStr ''2'')])"
  by (simp add: retrieveContext_def demo_filter_def demo_context_def demo_parsed_def
      obj_get_def obj_delete_def ctx_key_def demo_config_def)

lemma demo_filter_builder:
  "cursor_builder demo_config demo_parsed [(''limit'', JNum 0), (''offset'', JStr ''2'')] False
     = Inr (bq ''ds.compiled'')"
  by (simp add: cursor_builder_def obj_keys_def obj_get_def query_branch_def sort_if_given_def
      migrateIdParamToPrimaryKey_def blacklist_def demo_config_def where_obj_def bq_def
      apply_limit_def apply_offset_def demo_parsed_def context_table_def obj_delete_def)

theorem nonpositive_limit_offset_witness:
  "\<not> positive_number (obj_get demo_filter ''limit'') \<and>
   \<not> positive_number (obj_get demo_filter ''offset'') \<and>
   retrieveContext demo_config demo_filter
     = Inr (demo_parsed, [(''limit'', JNum 0), (''offset'', JStr ''2'')]) \<and>
   cursor_builder demo_config demo_parsed [(''limit'', JNum 0), (''offset'', JStr ''2'')] False
     = Inr (bq ''ds.compiled'') \<and>
   b_limit (bq ''ds.compiled'') = None \<and> b_offset (bq ''ds.compiled'') = None \<and>
   find_op demo_config pg_toString demo_engine (obj_delete demo_filter ''limit'') demo_world
     = find_op demo_config pg_toString demo_engine demo_filter demo_world \<and>
   find_op demo_config pg_toString demo_engine (obj_delete demo_filter ''offset'') demo_world
     = find_op demo_config pg_toString demo_engine demo_filter demo_world"
proof -
  have l: "\<not> positive_number (obj_get demo_filter ''limit'')"
    by (simp add: positive_number_def obj_get_def demo_filter_def ctx_key_def)
  have o: "\<not> positive_number (obj_get demo_filter ''offset'')"
    by (simp add: positive_number_def obj_get_def demo_filter_def ctx_key_def)
  note t = nonpositive_limit_offset_ignored
      [where filters = demo_filter and cfg = demo_config and kx = pg_toString
         and eng = demo_engine and isCounting = False and w = demo_world and c = demo_parsed
         and params = "[(''limit'', JNum 0), (''offset'', JStr ''2'')]"
         and q = "bq ''ds.compiled''"]
  from t l o demo_filter_context demo_filter_builder show ?thesis
    unfolding find_op_def by blast
qed

section \<open>Submission\<close>

lemma formatQuery_fst: "fst (formatQuery cfg s w) = replace_quotes s"
  by (simp add: formatQuery_def Let_def)

lemma formatQuery_world:
  "db (snd (formatQuery cfg s w)) = db w \<and> jobs (snd (formatQuery cfg s w)) = jobs w"
  by (simp add: formatQuery_def Let_def)

lemma query_jobs:
  "jobs (snd (query cfg eng s loc w))
     = jobs w @ [\<lparr>job_query = wrap_query cfg s loc, job_location = loc\<rparr>]"
  by (simp add: query_def Let_def split: prod.splits outcome.splits)

lemma query_Done:
  assumes "eng \<lparr>job_query = wrap_query cfg s loc, job_location = loc\<rparr> (db w) = (Done rows, d)"
  shows "fst (query cfg eng s loc w) = Inr rows \<and> db (snd (query cfg eng s loc w)) = d"
  using assms by (simp add: query_def Let_def)

lemma query_not_Done:
  assumes "eng \<lparr>job_query = wrap_query cfg s loc, job_location = loc\<rparr> (db w) = (out, d)"
    and "\<forall>rows. out \<noteq> Done rows"
  shows "\<exists>e. fst (query cfg eng s loc w) = Inl e"
  using assms by (cases out) (simp_all add: query_def Let_def)

lemma submit_jobs:
  "jobs (snd (submit cfg eng compiled c w)) = jobs w @ [job_of cfg compiled c]"
  by (simp add: submit_def job_of_def query_jobs formatQuery_def Let_def split: prod.splits)

lemma submit_Done:
  assumes "eng (job_of cfg compiled c) (db w) = (Done rows, d)"
  shows "fst (submit cfg eng compiled c w) = Inr rows \<and>
         db (snd (submit cfg eng compiled c w)) = d"
proof -
  obtain t w1 where f: "formatQuery cfg compiled w = (t, w1)" by (cases "formatQuery cfg compiled w")
  have t: "t = replace_quotes compiled" using formatQuery_fst [of cfg compiled w] f by simp
  have d: "db w1 = db w" using formatQuery_world [of cfg compiled w] f by simp
  have "eng \<lparr>job_query = wrap_query cfg t (context_region c), job_location = context_region c\<rparr>
          (db w1) = (Done rows, d)"
    using assms by (simp add: job_of_def t d)
  then have "fst (query cfg eng t (context_region c) w1) = Inr rows \<and>
             db (snd (query cfg eng t (context_region c) w1)) = d"
    by (rule query_Done)
  then show ?thesis by (simp add: submit_def f)
qed

lemma submit_not_Done:
  assumes "eng (job_of cfg compiled c) (db w) = (out, d)" and "\<forall>rows. out \<noteq> Done rows"
  shows "\<exists>e. fst (submit cfg eng compiled c w) = Inl e"
proof -
  obtain t w1 where f: "formatQuery cfg compiled w = (t, w1)" by (cases "formatQuery cfg compiled w")
  have t: "t = replace_quotes compiled" using formatQuery_fst [of cfg compiled w] f by simp
  have d: "db w1 = db w" using formatQuery_world [of cfg compiled w] f by simp
  have "eng \<lparr>job_query = wrap_query cfg t (context_region c), job_location = context_region c\<rparr>
          (db w1) = (out, d)"
    using assms(1) by (simp add: job_of_def t d)
  then have "\<exists>e. fst (query cfg eng t (context_region c) w1) = Inl e"
    using assms(2) by (rule query_not_Done)
  then show ?thesis by (simp add: submit_def f)
qed

section \<open>Removal\<close>

lemma remove_where_Done:
  fixes w :: "'db world"
  assumes pre: "eng (job_of cfg (batch1 (replace_quotes (kx t))) c) (db w) = (Done rows, d1)"
    and del: "eng (job_of cfg (batch1 (replace_quotes (kx (set_method Del t)))) c) d1
                = (Done gone, d2)"
    and t: "t = where_obj wh (bq (context_table c))"
  shows "fst (remove_where cfg kx eng c wh w) = Inr (Rows rows) \<and>
         jobs (snd (remove_where cfg kx eng c wh w))
           = jobs w @ [job_of cfg (batch1 (replace_quotes (kx t))) c,
                       job_of cfg (batch1 (replace_quotes (kx (set_method Del t)))) c] \<and>
         db (snd (remove_where cfg kx eng c wh w)) = d2"
proof -
  define w1 where "w1 = snd (formatQuery cfg (kx t) w)"
  define w2 where "w2 = snd (formatQuery cfg (kx (set_method Del t)) w1)"
  have f1: "formatQuery cfg (kx t) w = (replace_quotes (kx t), w1)"
    by (simp add: w1_def formatQuery_def Let_def)
  have f2: "formatQuery cfg (kx (set_method Del t)) w1
              = (replace_quotes (kx (set_method Del t)), w2)"
    by (simp add: w2_def formatQuery_def Let_def)
  define p1 where "p1 = batch1 (replace_quotes (kx t))"
  define p2 where "p2 = batch1 (replace_quotes (kx (set_method Del t)))"
  have w2: "db w2 = db w" "jobs w2 = jobs w"
    by (simp_all add: w2_def w1_def formatQuery_world)
  obtain r3 w3 where s1: "submit cfg eng p1 c w2 = (r3, w3)" by (cases "submit cfg eng p1 c w2")
  have "eng (job_of cfg p1 c) (db w2) = (Done rows, d1)" using pre by (simp add: w2 p1_def)
  then have "fst (submit cfg eng p1 c w2) = Inr rows \<and> db (snd (submit cfg eng p1 c w2)) = d1"
    by (rule submit_Done)
  with s1 have r3: "r3 = Inr rows" and d3: "db w3 = d1" by simp_all
  have j3: "jobs w3 = jobs w @ [job_of cfg p1 c]"
    using submit_jobs [of cfg eng p1 c w2] s1 by (simp add: w2)
  obtain r4 w4 where s2: "submit cfg eng p2 c w3 = (r4, w4)" by (cases "submit cfg eng p2 c w3")
  have "eng (job_of cfg p2 c) (db w3) = (Done gone, d2)" using del by (simp add: d3 p2_def)
  then have "fst (submit cfg eng p2 c w3) = Inr gone \<and> db (snd (submit cfg eng p2 c w3)) = d2"
    by (rule submit_Done)
  with s2 have r4: "r4 = Inr gone" and d4: "db w4 = d2" by simp_all
  have j4: "jobs w4 = jobs w @ [job_of cfg p1 c, job_of cfg p2 c]"
    using submit_jobs [of cfg eng p2 c w3] s2 by (simp add: j3)
  have "remove_where cfg kx eng c wh w = (Inr (Rows rows), w4)"
    using s1 s2 r3 r4
    by (simp add: remove_where_def Let_def t [symmetric] p1_def p2_def f1 f2)
  then show ?thesis by (simp add: d4 j4 p1_def p2_def)
qed

lemma remove_where_select_fails:
  fixes w :: "'db world"
  assumes pre: "eng (job_of cfg (batch1 (replace_quotes (kx t))) c) (db w) = (out, d1)"
    and out: "\<forall>rows. out \<noteq> Done rows"
    and t: "t = where_obj wh (bq (context_table c))"
  shows "(\<exists>e. fst (remove_where cfg kx eng c wh w) = Inl e) \<and>
         jobs (snd (remove_where cfg kx eng c wh w))
           = jobs w @ [job_of cfg (batch1 (replace_quotes (kx t))) c]"
proof -
  define w1 where "w1 = snd (formatQuery cfg (kx t) w)"
  define w2 where "w2 = snd (formatQuery cfg (kx (set_method Del t)) w1)"
  have f1: "formatQuery cfg (kx t) w = (replace_quotes (kx t), w1)"
    by (simp add: w1_def formatQuery_def Let_def)
  have f2: "formatQuery cfg (kx (set_method Del t)) w1
              = (replace_quotes (kx (set_method Del t)), w2)"
    by (simp add: w2_def formatQuery_def Let_def)
  define p1 where "p1 = batch1 (replace_quotes (kx t))"
  have w2: "db w2 = db w" "jobs w2 = jobs w"
    by (simp_all add: w2_def w1_def formatQuery_world)
  obtain r3 w3 where s1: "submit cfg eng p1 c w2 = (r3, w3)" by (cases "submit cfg eng p1 c w2")
  have "eng (job_of cfg p1 c) (db w2) = (out, d1)" using pre by (simp add: w2 p1_def)
  then have "\<exists>e. fst (submit cfg eng p1 c w2) = Inl e"
    using out by (rule submit_not_Done)
  with s1 obtain e where r3: "r3 = Inl e" by auto
  have j3: "jobs w3 = jobs w @ [job_of cfg p1 c]"
    using submit_jobs [of cfg eng p1 c w2] s1 by (simp add: w2)
  have "remove_where cfg kx eng c wh w = (Inl e, w3)"
    using s1 r3
    by (simp add: remove_where_def Let_def t [symmetric] p1_def f1 f2)
  then show ?thesis by (simp add: j3 p1_def)
qed

lemma findById_Done:
  assumes r: "retrieveContext cfg p = Inr (c, rest)"
    and e: "eng (job_of cfg (kx (findById_builder cfg c ident)) c) (db w) = (Done rows, d)"
  shows "fst (findById cfg kx eng p ident w) = Inr (First (shift rows))"
proof -
  from e have "fst (submit cfg eng (kx (findById_builder cfg c ident)) c w) = Inr rows \<and>
      db (snd (submit cfg eng (kx (findById_builder cfg c ident)) c w)) = d"
    by (rule submit_Done)
  then show ?thesis
    using r by (auto simp: findById_def split: prod.splits sum.splits)
qed

text \<open>
  C7, as amended. \<open>removeMany\<close> and \<open>removeById\<close> run the select for their where
  clause as one job, then the delete for the same where clause as the next job, and
  return every row of the select; when the select does not complete, the delete is not
  submitted. \<open>findById\<close> sends the same where clause limited to one row and returns the
  first row of its answer.
\<close>

theorem remove_returns_preimage:
  "(retrieveContext cfg p = Inr (c, wh) \<longrightarrow>
      removeMany cfg kx eng p w = remove_where cfg kx eng c wh w \<and>
      removeById cfg kx eng p ident w = remove_where cfg kx eng c [(getIdKey cfg, ident)] w \<and>
      b_wheres (findById_builder cfg c ident)
        = b_wheres (where_obj [(getIdKey cfg, ident)] (bq (context_table c))) \<and>
      b_limit (findById_builder cfg c ident) = Some 1 \<and>
      b_limit (where_obj [(getIdKey cfg, ident)] (bq (context_table c))) = None \<and>
      (eng (job_of cfg (kx (findById_builder cfg c ident)) c) (db w) = (Done found, d0) \<longrightarrow>
         fst (findById cfg kx eng p ident w) = Inr (First (shift found)))) \<and>
   (t = where_obj wh1 (bq (context_table c)) \<longrightarrow>
    eng (job_of cfg (batch1 (replace_quotes (kx t))) c) (db w) = (Done rows, d1) \<longrightarrow>
    eng (job_of cfg (batch1 (replace_quotes (kx (set_method Del t)))) c) d1 = (Done gone, d2) \<longrightarrow>
      fst (remove_where cfg kx eng c wh1 w) = Inr (Rows rows) \<and>
      jobs (snd (remove_where cfg kx eng c wh1 w))
        = jobs w @ [job_of cfg (batch1 (replace_quotes (kx t))) c,
                    job_of cfg (batch1 (replace_quotes (kx (set_method Del t)))) c] \<and>
      db (snd (remove_where cfg kx eng c wh1 w)) = d2) \<and>
   (t = where_obj wh1 (bq (context_table c)) \<longrightarrow>
    eng (job_of cfg (batch1 (replace_quotes (kx t))) c) (db w) = (out, d1) \<longrightarrow>
    (\<forall>rs. out \<noteq> Done rs) \<longrightarrow>
      (\<exists>e. fst (remove_where cfg kx eng c wh1 w) = Inl e) \<and>
      jobs (snd (remove_where cfg kx eng c wh1 w))
        = jobs w @ [job_of cfg (batch1 (replace_quotes (kx t))) c])"
proof (intro conjI impI)
  assume r: "retrieveContext cfg p = Inr (c, wh)"
  show "removeMany cfg kx eng p w = remove_where cfg kx eng c wh w"
    by (simp add: removeMany_def r)
  show "removeById cfg kx eng p ident w = remove_where cfg kx eng c [(getIdKey cfg, ident)] w"
    by (simp add: removeById_def r)
  show "b_wheres (findById_builder cfg c ident)
        = b_wheres (where_obj [(getIdKey cfg, ident)] (bq (context_table c)))"
    by (simp add: findById_builder_def limit_to_def)
  show "b_limit (findById_builder cfg c ident) = Some 1"
    by (simp add: findById_builder_def limit_to_def)
  show "b_limit (where_obj [(getIdKey cfg, ident)] (bq (context_table c))) = None"
    by (simp add: where_obj_def bq_def)
  assume "eng (job_of cfg (kx (findById_builder cfg c ident)) c) (db w) = (Done found, d0)"
  with r show "fst (findById cfg kx eng p ident w) = Inr (First (shift found))"
    by (rule findById_Done)
next
  assume t: "t = where_obj wh1 (bq (context_table c))"
    and a: "eng (job_of cfg (batch1 (replace_quotes (kx t))) c) (db w) = (Done rows, d1)"
    and b: "eng (job_of cfg (batch1 (replace_quotes (kx (set_method Del t)))) c) d1
              = (Done gone, d2)"
  have x: "fst (remove_where cfg kx eng c wh1 w) = Inr (Rows rows) \<and>
      jobs (snd (remove_where cfg kx eng c wh1 w))
        = jobs w @ [job_of cfg (batch1 (replace_quotes (kx t))) c,
                    job_of cfg (batch1 (replace_quotes (kx (set_method Del t)))) c] \<and>
      db (snd (remove_where cfg kx eng c wh1 w)) = d2"
    using a b t by (rule remove_where_Done)
  from x show "fst (remove_where cfg kx eng c wh1 w) = Inr (Rows rows)" by blast
  from x show "jobs (snd (remove_where cfg kx eng c wh1 w))
        = jobs w @ [job_of cfg (batch1 (replace_quotes (kx t))) c,
                    job_of cfg (batch1 (replace_quotes (kx (set_method Del t)))) c]" by blast
  from x show "db (snd (remove_where cfg kx eng c wh1 w)) = d2" by blast
next
  assume t: "t = where_obj wh1 (bq (context_table c))"
    and a: "eng (job_of cfg (batch1 (replace_quotes (kx t))) c) (db w) = (out, d1)"
    and o: "\<forall>rs. out \<noteq> Done rs"
  have x: "(\<exists>e. fst (remove_where cfg kx eng c wh1 w) = Inl e) \<and>
      jobs (snd (remove_where cfg kx eng c wh1 w))
        = jobs w @ [job_of cfg (batch1 (replace_quotes (kx t))) c]"
    using a o t by (rule remove_where_select_fails)
  from x show "\<exists>e. fst (remove_where cfg kx eng c wh1 w) = Inl e" by blast
  from x show "jobs (snd (remove_where cfg kx eng c wh1 w))
        = jobs w @ [job_of cfg (batch1 (replace_quotes (kx t))) c]" by blast
qed

text \<open>
  The claim as first stated fails on a table with two rows under the key \<open>X\<close>:
  \<open>removeById\<close> returns both rows, \<open>findById\<close> on the same world returns the first.
\<close>

theorem removeById_not_findById_counterexample:
  "fst (removeById demo_config pg_toString demo_engine demo_payload (JStr ''X'') demo_world)
     = Inr (Rows [[(''pk'', JStr ''X''), (''n'', JNum 1)], [(''pk'', JStr ''X''), (''n'', JNum 2)]]) \<and>
   fst (findById demo_config pg_toString demo_engine demo_payload (JStr ''X'') demo_world)
     = Inr (First (Some [(''pk'', JStr ''X''), (''n'', JNum 1)])) \<and>
   map_sum id result_rows
     (fst (removeById demo_config pg_toString demo_engine demo_payload (JStr ''X'') demo_world))
   \<noteq> map_sum id result_rows
     (fst (findById demo_config pg_toString demo_engine demo_payload (JStr ''X'') demo_world))"
  by code_simp

theorem remove_returns_preimage_witness:
  "retrieveContext demo_config demo_payload = Inr (demo_parsed, []) \<and>
   removeById demo_config pg_toString demo_engine demo_payload (JStr ''X'') demo_world
     = remove_where demo_config pg_toString demo_engine demo_parsed
         [(getIdKey demo_config, JStr ''X'')] demo_world \<and>
   demo_engine
       (job_of demo_config (pg_toString (findById_builder demo_config demo_parsed (JStr ''X'')))
          demo_parsed) (db demo_world) = (Done (take 1 demo_rows), demo_rows) \<and>
   fst (findById demo_config pg_toString demo_engine demo_payload (JStr ''X'') demo_world)
     = Inr (First (shift (take 1 demo_rows))) \<and>
   demo_engine (job_of demo_config (batch1 (replace_quotes (pg_toString demo_pk_where))) demo_parsed)
       (db demo_world) = (Done demo_rows, demo_rows) \<and>
   demo_engine
       (job_of demo_config (batch1 (replace_quotes (pg_toString (set_method Del demo_pk_where))))
          demo_parsed) demo_rows = (Done [], []) \<and>
   fst (remove_where demo_config pg_toString demo_engine demo_parsed
          [(getIdKey demo_config, JStr ''X'')] demo_world) = Inr (Rows demo_rows) \<and>
   db (snd (remove_where demo_config pg_toString demo_engine demo_parsed
          [(getIdKey demo_config, JStr ''X'')] demo_world)) = [] \<and>
   jobs (snd (remove_where demo_config pg_toString rejecting_engine demo_parsed
          [(getIdKey demo_config, JStr ''X'')] demo_world))
     = jobs demo_world @
       [job_of demo_config (batch1 (replace_quotes (pg_toString demo_pk_where))) demo_parsed]"
proof -
  have r: "retrieveContext demo_config demo_payload = Inr (demo_parsed, [])"
    by code_simp
  have f: "demo_engine
       (job_of demo_config (pg_toString (findById_builder demo_config demo_parsed (JStr ''X'')))
          demo_parsed) (db demo_world) = (Done (take 1 demo_rows), demo_rows)"
    by code_simp
  have t: "demo_pk_where
      = where_obj [(getIdKey demo_config, JStr ''X'')] (bq (context_table demo_parsed))"
    by (simp add: demo_pk_where_def)
  have a: "demo_engine
       (job_of demo_config (batch1 (replace_quotes (pg_toString demo_pk_where))) demo_parsed)
       (db demo_world) = (Done demo_rows, demo_rows)"
    by code_simp
  have b: "demo_engine
       (job_of demo_config (batch1 (replace_quotes (pg_toString (set_method Del demo_pk_where))))
          demo_parsed) demo_rows = (Done [], [])"
    by code_simp
  have x: "rejecting_engine
       (job_of demo_config (batch1 (replace_quotes (pg_toString demo_pk_where))) demo_parsed)
       (db demo_world) = (Rejected ''quota'', db demo_world)"
    by (simp add: rejecting_engine_def)
  have n: "\<forall>rs. Rejected ''quota'' \<noteq> Done rs" by simp
  note ok = remove_returns_preimage
      [where cfg = demo_config and p = demo_payload and c = demo_parsed and wh = "[]"
         and kx = pg_toString and eng = demo_engine and w = demo_world
         and ident = "JStr ''X''" and found = "take 1 demo_rows" and ?d0.0 = demo_rows
         and t = demo_pk_where and ?wh1.0 = "[(getIdKey demo_config, JStr ''X'')]"
         and rows = demo_rows and ?d1.0 = demo_rows and gone = "[]" and ?d2.0 = "[]"]
  note bad = remove_returns_preimage
      [where cfg = demo_config and c = demo_parsed
         and kx = pg_toString and eng = rejecting_engine and w = demo_world
         and t = demo_pk_where and ?wh1.0 = "[(getIdKey demo_config, JStr ''X'')]"
         and out = "Rejected ''quota''" and ?d1.0 = "db demo_world"]
  from ok r f t a b have
    1: "removeById demo_config pg_toString demo_engine demo_payload (JStr ''X'') demo_world
     = remove_where demo_config pg_toString demo_engine demo_parsed
         [(getIdKey demo_config, JStr ''X'')] demo_world"
    and 2: "fst (findById demo_config pg_toString demo_engine demo_payload (JStr ''X'') demo_world)
     = Inr (First (shift (take 1 demo_rows)))"
    and 3: "fst (remove_where demo_config pg_toString demo_engine demo_parsed
          [(getIdKey demo_config, JStr ''X'')] demo_world) = Inr (Rows demo_rows)"
    and 4: "db (snd (remove_where demo_config pg_toString demo_engine demo_parsed
          [(getIdKey demo_config, JStr ''X'')] demo_world)) = []"
    by blast+
  from bad t x n have
    5: "jobs (snd (remove_where demo_config pg_toString rejecting_engine demo_parsed
          [(getIdKey demo_config, JStr ''X'')] demo_world))
     = jobs demo_world @
       [job_of demo_config (batch1 (replace_quotes (pg_toString demo_pk_where))) demo_parsed]"
    by blast
  from r 1 f 2 a b 3 4 5 show ?thesis by blast
qed

section \<open>Statements built for concrete filters\<close>

text \<open>
  C1. For the search filter with the query \<open>{age: 7}\<close> the where clauses are one chain:
  the equality, then each \<open>like\<close> clause added with \<open>orWhere\<close>. The compiled text has no
  parentheses, and a row of age 8 whose name holds the term satisfies it, while it does
  not satisfy the conjunction of the equality with the group of \<open>like\<close> clauses.
\<close>

theorem search_with_query_is_or_chain:
  "cursor_builder demo_config demo_parsed search_filter False
     = Inr ((bq ''ds.compiled'')
             \<lparr>b_wheres := [(And, Eq ''age'' (JNum 7)), (Or, Like ''name'' ''%abc%''),
                           (Or, Like ''tag'' ''%abc%'')]\<rparr>) \<and>
   map_sum id (\<lambda>q. replace_quotes (pg_toString q))
       (cursor_builder demo_config demo_parsed search_filter False)
     = Inr (''select * from '' @ bt ''ds'' @ ''.'' @ bt ''compiled'' @ '' where '' @
            bt ''age'' @ '' = 7 or '' @ bt ''name'' @ '' like '' @ sq ''%abc%'' @ '' or '' @
            bt ''tag'' @ '' like '' @ sq ''%abc%'') \<and>
   where_holds other_age_row
     [(And, Eq ''age'' (JNum 7)), (Or, Like ''name'' ''%abc%''), (Or, Like ''tag'' ''%abc%'')] \<and>
   \<not> spec_search_where [(''age'', JNum 7)] ''abc'' [''name'', ''tag''] other_age_row"
  by code_simp

text \<open>
  The claim on the generic identifier as first stated fails twice. A query \<open>{id: 5}\<close> is
  normalised to an object that binds the primary key and still holds \<open>id\<close>, so the where
  clause of find names both columns. An \<open>id\<close> of zero does not pass the guard and is not
  copied to the primary key.
\<close>

theorem id_key_is_kept:
  "migrateIdParamToPrimaryKey demo_config (JObj [(''id'', JNum 5)])
     = [(''id'', JNum 5), (''pk'', JNum 5)] \<and>
   map_sum id where_columns
       (cursor_builder demo_config demo_parsed [(''query'', JObj [(''id'', JNum 5)])] False)
     = Inr [''id'', ''pk''] \<and>
   migrateIdParamToPrimaryKey demo_config (JObj [(''id'', JNum 0)]) = [(''id'', JNum 0)]"
  by code_simp

text \<open>
  C4. With \<open>secret\<close> on the denylist, find drops the column from its where clause, and
  \<open>findOne\<close>, \<open>removeMany\<close> and \<open>updateMany\<close> do not: the statement \<open>findOne\<close> submits
  for the payload \<open>{secret: 1}\<close> tests the column. A search field on the denylist reaches
  the where clause of find as well.
\<close>

theorem denylist_only_in_query_of_find:
  "blacklist demo_config = [''secret''] \<and>
   map_sum id where_columns
       (cursor_builder demo_config demo_parsed [(''query'', JObj [(''secret'', JNum 1)])] False)
     = Inr [] \<and>
   map (\<lambda>j. job_query j)
       (jobs (snd (findOne demo_config pg_toString demo_engine
                     [(ctx_key, demo_context), (''secret'', JNum 1)] demo_world)))
     = [''select * from '' @ bt ''ds'' @ ''.'' @ bt ''compiled'' @ '' where '' @
        bt ''secret'' @ '' = 1 limit 1''] \<and>
   map (\<lambda>j. job_query j)
       (jobs (snd (removeMany demo_config pg_toString demo_engine
                     [(ctx_key, demo_context), (''secret'', JNum 1)] demo_world)))
     = [replace_quotes (batch1 (''select * from '' @ bt ''ds'' @ ''.'' @ bt ''compiled'' @
          '' where '' @ bt ''secret'' @ '' = 1'')),
        replace_quotes (batch1 (''delete from '' @ bt ''ds'' @ ''.'' @ bt ''compiled'' @
          '' where '' @ bt ''secret'' @ '' = 1''))] \<and>
   map_sum id where_columns
       (cursor_builder demo_config demo_parsed
          [(''search'', JStr ''a''), (''searchFields'', JArr [JStr ''secret''])] False)
     = Inr [''secret'']"
  by code_simp

text \<open>
  C5. The string \<open>a,b,c\<close> loses only its first comma before it is split at spaces, so
  it orders by \<open>a\<close> and by a column \<open>b,c\<close>; the sequence of the three tokens and the
  mapping of the three columns to 1 order by \<open>a\<close>, \<open>b\<close> and \<open>c\<close>.
\<close>

theorem sort_string_second_comma_kept:
  "map_sum id b_orders (transformSort (bq ''t'') (JStr ''a,b,c''))
     = Inr [(''a'', Asc), (''b,c'', Asc)] \<and>
   map_sum id b_orders (transformSort (bq ''t'') (JArr [JStr ''a'', JStr ''b'', JStr ''c'']))
     = Inr [(''a'', Asc), (''b'', Asc), (''c'', Asc)] \<and>
   map_sum id b_orders
       (transformSort (bq ''t'') (JObj [(''a'', JNum 1), (''b'', JNum 1), (''c'', JNum 1)]))
     = Inr [(''a'', Asc), (''b'', Asc), (''c'', Asc)]"
  by code_simp

text \<open>
  C6. count shapes its statement as find does, offset, limit and order included: for
  the filter \<open>{offset: 1}\<close> the count statement carries \<open>offset 1\<close>. When the answer has
  no row, reading \<open>f0_\<close> from the first row raises a TypeError.
\<close>

theorem count_keeps_offset:
  "cursor_builder demo_config demo_parsed [(''offset'', JNum 1)] True
     = Inr ((bq ''ds.compiled'')\<lparr>b_method := Count ''pk'', b_offset := Some 1\<rparr>) \<and>
   map (\<lambda>j. job_query j)
       (jobs (snd (count demo_config pg_toString empty_engine
                     [(ctx_key, demo_context), (''offset'', JNum 1)] demo_world)))
     = [''select count('' @ bt ''pk'' @ '') from '' @ bt ''ds'' @ ''.'' @ bt ''compiled'' @
        '' offset 1''] \<and>
   fst (count demo_config pg_toString empty_engine
          [(ctx_key, demo_context), (''offset'', JNum 1)] demo_world) = Inl TypeError"
  by code_simp

text \<open>
  C9. With a wrapper that puts a pragma before the statement, the job carries the
  wrapper's output and the log line of the job carries the statement as it was before
  the wrapper; with logging switched on, \<open>formatQuery\<close> logs that earlier text too.
\<close>

theorem wrapper_output_not_logged:
  "query pragma_config demo_engine ''select 1'' (JStr ''EU'') demo_world
     = (Inr demo_rows,
        \<lparr>db = demo_rows,
         jobs = [\<lparr>job_query = ''-- pragma select 1'', job_location = JStr ''EU''\<rparr>],
         logs = [JobStarted 0 ''select 1'', JobComplete 0]\<rparr>) \<and>
   logs (snd (submit (pragma_config\<lparr>showLogs := True\<rparr>) demo_engine ''select 1''
                demo_parsed demo_world))
     = [LogQuery ''select 1'', JobStarted 0 ''select 1'', JobComplete 0] \<and>
   map (\<lambda>j. job_query j)
       (jobs (snd (submit (pragma_config\<lparr>showLogs := True\<rparr>) demo_engine ''select 1''
                demo_parsed demo_world)))
     = [''-- pragma select 1'']"
  by code_simp

section \<open>The generic identifier\<close>

lemma obj_get_set_same: "obj_get (obj_set ob k v) k = v"
  by (induction ob) (auto simp: obj_get_def)

lemma obj_get_fold_delete:
  "k \<notin> set ks \<Longrightarrow> obj_get (fold (\<lambda>b ob. obj_delete ob b) ks ob) k = obj_get ob k"
  by (induction ks arbitrary: ob) (auto simp: obj_get_delete_other)

lemma obj_get_member:
  assumes "obj_get ob k = v" and "v \<noteq> JUndefined"
  shows "(k, v) \<in> set ob"
proof (cases "map_of ob k")
  case None
  with assms show ?thesis by (simp add: obj_get_def)
next
  case (Some u)
  with assms(1) have "u = v" by (simp add: obj_get_def)
  with Some show ?thesis by (auto dest: map_of_SomeD)
qed

lemma migrate_binds_primary_key:
  assumes "truthy (obj_get fs ''id'')" and "getIdKey cfg \<notin> set (blacklist cfg)"
  shows "obj_get (migrateIdParamToPrimaryKey cfg (JObj fs)) (getIdKey cfg) = obj_get fs ''id''"
  using assms
  by (simp add: migrateIdParamToPrimaryKey_def obj_get_fold_delete obj_get_set_same)

lemma where_obj_member:
  "(k, v) \<in> set ob \<Longrightarrow> (And, Eq k v) \<in> set (b_wheres (where_obj ob q))"
  by (force simp: where_obj_def)

lemma order_by_keys_wheres: "order_by_keys kvs q = Inr q' \<Longrightarrow> b_wheres q' = b_wheres q"
proof (induction kvs arbitrary: q)
  case Nil
  then show ?case by simp
next
  case (Cons kv kvs)
  then show ?case by (fastforce simp: orderBy_def split: sum.splits)
qed

lemma sort_if_given_wheres: "sort_if_given params q = Inr q' \<Longrightarrow> b_wheres q' = b_wheres q"
  by (auto simp: sort_if_given_def transformSort_def
      split: if_splits sum.splits jsval.splits dest: order_by_keys_wheres)

lemma fold_orWhere_wheres:
  "set (b_wheres q) \<subseteq> set (b_wheres (fold (\<lambda>field. orWhere_like field pat) fs q))"
proof (induction fs arbitrary: q)
  case Nil
  then show ?case by simp
next
  case (Cons f fs)
  have "set (b_wheres q) \<subseteq> set (b_wheres (orWhere_like f pat q))"
    by (auto simp: orWhere_like_def)
  with Cons [of "orWhere_like f pat q"] show ?case by auto
qed

lemma apply_offset_wheres: "b_wheres (apply_offset params q) = b_wheres q"
  by (simp add: apply_offset_def offset_by_def split: jsval.splits)

lemma apply_limit_wheres: "b_wheres (apply_limit params q) = b_wheres q"
  by (simp add: apply_limit_def limit_to_def split: jsval.splits)

lemma finish_wheres:
  "b_wheres (if isCounting then set_method m q else where_obj [] q) = b_wheres q"
  by (simp add: set_method_def where_obj_def)

lemma query_branch_member:
  assumes "query_branch cfg params q = Inr q'"
    and "(k, v) \<in> set (migrateIdParamToPrimaryKey cfg (obj_get params ''query''))"
  shows "(And, Eq k v) \<in> set (b_wheres q')"
  using assms by (auto simp: query_branch_def dest!: sort_if_given_wheres intro: where_obj_member)

lemma search_branch_member:
  assumes "search_branch cfg params t q = Inr q'"
    and "truthy (obj_get params ''query'')"
    and "(k, v) \<in> set (migrateIdParamToPrimaryKey cfg (obj_get params ''query''))"
  shows "(And, Eq k v) \<in> set (b_wheres q')"
proof -
  from assms(1,2) obtain fl where
    s: "sort_if_given params
          (fold (\<lambda>field. orWhere_like field (like_pattern t)) fl
             (where_obj (migrateIdParamToPrimaryKey cfg (obj_get params ''query'')) q)) = Inr q'"
    by (auto simp: search_branch_def Let_def split: sum.splits)
  have "(And, Eq k v) \<in> set (b_wheres
          (where_obj (migrateIdParamToPrimaryKey cfg (obj_get params ''query'')) q))"
    using assms(3) by (rule where_obj_member)
  then have "(And, Eq k v) \<in> set (b_wheres
          (fold (\<lambda>field. orWhere_like field (like_pattern t)) fl
             (where_obj (migrateIdParamToPrimaryKey cfg (obj_get params ''query'')) q)))"
    using fold_orWhere_wheres by blast
  then show ?thesis using sort_if_given_wheres [OF s] by simp
qed

lemma cursor_builder_member:
  assumes b: "cursor_builder cfg c params isCounting = Inr q"
    and t: "truthy (obj_get params ''query'')"
    and m: "(k, v) \<in> set (migrateIdParamToPrimaryKey cfg (obj_get params ''query''))"
  shows "(And, Eq k v) \<in> set (b_wheres q)"
proof -
  have ne: "length (obj_keys params) > 0"
  proof (cases params)
    case Nil
    with t show ?thesis by (simp add: obj_get_def)
  next
    case (Cons a list)
    then show ?thesis by (simp add: obj_keys_def)
  qed
  with b obtain q3 where
    s: "(case obj_get params ''search'' of
              JStr term \<Rightarrow> if term \<noteq> [] then search_branch cfg params term (bq (context_table c))
                           else query_branch cfg params (bq (context_table c))
            | _ \<Rightarrow> query_branch cfg params (bq (context_table c))) = Inr q3"
    and q: "q = (if isCounting then set_method (Count (getIdKey cfg))
                   (apply_limit params (apply_offset params q3))
                 else where_obj [] (apply_limit params (apply_offset params q3)))"
    by (auto simp: cursor_builder_def Let_def split: sum.splits)
  have "(And, Eq k v) \<in> set (b_wheres q3)"
    using s t m
    by (auto split: jsval.splits if_splits intro: search_branch_member query_branch_member)
  then show ?thesis
    by (simp add: q finish_wheres apply_limit_wheres apply_offset_wheres)
qed

text \<open>
  C3, as amended. When the query of a filter holds a truthy \<open>id\<close> and the primary-key
  column is not on the denylist, the normalised where object binds the primary-key
  column to that value, and the statement of find and count tests the column against it.
\<close>

theorem truthy_id_bound_to_primary_key:
  "truthy (obj_get fs ''id'') \<longrightarrow> getIdKey cfg \<notin> set (blacklist cfg) \<longrightarrow>
     obj_get (migrateIdParamToPrimaryKey cfg (JObj fs)) (getIdKey cfg) = obj_get fs ''id'' \<and>
     (obj_get params ''query'' = JObj fs \<longrightarrow>
      cursor_builder cfg c params isCounting = Inr q \<longrightarrow>
        (And, Eq (getIdKey cfg) (obj_get fs ''id'')) \<in> set (b_wheres q))"
proof (intro impI conjI)
  assume t: "truthy (obj_get fs ''id'')" and n: "getIdKey cfg \<notin> set (blacklist cfg)"
  show g: "obj_get (migrateIdParamToPrimaryKey cfg (JObj fs)) (getIdKey cfg) = obj_get fs ''id''"
    using t n by (rule migrate_binds_primary_key)
  assume p: "obj_get params ''query'' = JObj fs"
    and b: "cursor_builder cfg c params isCounting = Inr q"
  have "obj_get fs ''id'' \<noteq> JUndefined" using t by auto
  with g have "(getIdKey cfg, obj_get fs ''id'') \<in> set (migrateIdParamToPrimaryKey cfg (JObj fs))"
    by (rule obj_get_member)
  then show "(And, Eq (getIdKey cfg) (obj_get fs ''id'')) \<in> set (b_wheres q)"
    using b p by (auto intro: cursor_builder_member)
qed

theorem truthy_id_witness:
  "truthy (obj_get [(''id'', JNum 5)] ''id'') \<and>
   getIdKey demo_config \<notin> set (blacklist demo_config) \<and>
   obj_get id_filter ''query'' = JObj [(''id'', JNum 5)] \<and>
   cursor_builder demo_config demo_parsed id_filter False = Inr id_builder \<and>
   obj_get (migrateIdParamToPrimaryKey demo_config (JObj [(''id'', JNum 5)])) (getIdKey demo_config)
     = obj_get [(''id'', JNum 5)] ''id'' \<and>
   (And, Eq (getIdKey demo_config) (obj_get [(''id'', JNum 5)] ''id'')) \<in> set (b_wheres id_builder)"
proof -
  have t: "truthy (obj_get [(''id'', JNum 5)] ''id'')" by code_simp
  have n: "getIdKey demo_config \<notin> set (blacklist demo_config)" by code_simp
  have p: "obj_get id_filter ''query'' = JObj [(''id'', JNum 5)]" by code_simp
  have b: "cursor_builder demo_config demo_parsed id_filter False = Inr id_builder" by code_simp
  note x = truthy_id_bound_to_primary_key
      [where fs = "[(''id'', JNum 5)]" and cfg = demo_config and params = id_filter
         and c = demo_parsed and isCounting = False and q = id_builder]
  from x t n p b show ?thesis by blast
qed

section \<open>What each operation submits\<close>

lemma format_batch2_world:
  "jobs (snd (format_batch2 cfg s1 s2 w)) = jobs w \<and> db (snd (format_batch2 cfg s1 s2 w)) = db w"
  by (simp add: format_batch2_def formatQuery_def Let_def)

lemma submit_rows_jobs:
  "jobs (snd (submit_rows cfg eng compiled c w)) = jobs w @ [job_of cfg compiled c]"
  using submit_jobs [of cfg eng compiled c w]
  by (auto simp: submit_rows_def split: prod.splits sum.splits)

lemma batch_submit_jobs:
  "jobs (snd (case format_batch2 cfg s1 s2 w of
                (compiledQuery, w1) \<Rightarrow> submit_rows cfg eng compiledQuery c w1))
     = jobs w @ [job_of cfg (batch2 (replace_quotes s1) (replace_quotes s2)) c]"
proof -
  obtain t w1 where f: "format_batch2 cfg s1 s2 w = (t, w1)"
    by (cases "format_batch2 cfg s1 s2 w")
  have "t = batch2 (replace_quotes s1) (replace_quotes s2)"
    using format_batch2_text [of cfg s1 s2 w] f by simp
  moreover have "jobs w1 = jobs w" using format_batch2_world [of cfg s1 s2 w] f by simp
  ultimately show ?thesis by (simp add: f submit_rows_jobs)
qed

lemma findOne_jobs:
  assumes "retrieveContext cfg p = Inr (c, stripped)"
  shows "jobs (snd (findOne cfg kx eng p w))
         = jobs w @ [job_of cfg (kx (findOne_builder c stripped)) c]"
  using assms submit_jobs [of cfg eng "kx (findOne_builder c stripped)" c w]
  by (auto simp: findOne_def split: prod.splits sum.splits)

lemma createCursor_jobs:
  assumes "retrieveContext cfg p = Inr (c, stripped)"
    and "cursor_builder cfg c stripped isCounting = Inr q"
  shows "jobs (snd (createCursor cfg kx eng p isCounting w)) = jobs w @ [job_of cfg (kx q) c]"
  using assms submit_jobs [of cfg eng "kx q" c w]
  by (auto simp: createCursor_def split: prod.splits sum.splits option.splits)

lemma updateMany_jobs:
  assumes "retrieveContext cfg p = Inr (c, stripped)"
  shows "jobs (snd (updateMany cfg kx eng where0 p w))
         = jobs w @
           [job_of cfg
              (batch2
                 (replace_quotes
                    (kx (set_method (Update stripped) (where_obj where0 (bq (context_table c))))))
                 (replace_quotes (kx (where_obj where0 (bq (context_table c)))))) c]"
  using assms by (simp add: updateMany_def Let_def batch_submit_jobs)

lemma updateById_jobs:
  assumes "retrieveContext cfg p = Inr (c, stripped)"
  shows "jobs (snd (updateById cfg kx eng ident p w))
         = jobs w @
           [job_of cfg
              (batch2
                 (replace_quotes
                    (kx (set_method (Update stripped)
                           (where_obj [(getIdKey cfg, ident)] (bq (context_table c))))))
                 (replace_quotes
                    (kx (where_obj [(getIdKey cfg, ident)] (bq (context_table c)))))) c]"
  using assms by (simp add: updateById_def Let_def batch_submit_jobs)

lemma insert_op_jobs:
  assumes "retrieveContext cfg p = Inr (c, stripped)"
  shows "jobs (snd (insert_op cfg kx eng p w))
         = jobs w @
           [job_of cfg
              (batch2
                 (replace_quotes
                    (kx (set_method (Insert [[(getIdKey cfg, obj_get stripped (getIdKey cfg))]])
                           (bq (context_table c)))))
                 (replace_quotes
                    (kx (whereIn (getIdKey cfg) [obj_get stripped (getIdKey cfg)]
                           (bq (context_table c)))))) c]"
  using assms by (simp add: insert_op_def Let_def batch_submit_jobs)

lemma insertMany_jobs:
  assumes "retrieveContext_array cfg ps = Inr (Some c, es)"
  shows "jobs (snd (insertMany cfg kx eng ps w))
         = jobs w @
           [job_of cfg
              (batch2
                 (replace_quotes (kx (set_method (Insert es) (bq (context_table c)))))
                 (replace_quotes
                    (kx (whereIn (getIdKey cfg) (map (\<lambda>entity. obj_get entity (getIdKey cfg)) es)
                           (bq (context_table c)))))) c]"
  using assms by (simp add: insertMany_def Let_def batch_submit_jobs)

lemma remove_where_first_job:
  fixes w :: "'db world"
  shows "\<exists>rest. jobs (snd (remove_where cfg kx eng c wh w))
           = jobs w @
             job_of cfg (batch1 (replace_quotes (kx (where_obj wh (bq (context_table c)))))) c
             # rest"
proof -
  define t where "t = where_obj wh (bq (context_table c))"
  define w1 where "w1 = snd (formatQuery cfg (kx t) w)"
  define w2 where "w2 = snd (formatQuery cfg (kx (set_method Del t)) w1)"
  define p1 where "p1 = batch1 (replace_quotes (kx t))"
  define p2 where "p2 = batch1 (replace_quotes (kx (set_method Del t)))"
  have f1: "formatQuery cfg (kx t) w = (replace_quotes (kx t), w1)"
    by (simp add: w1_def formatQuery_def Let_def)
  have f2: "formatQuery cfg (kx (set_method Del t)) w1
              = (replace_quotes (kx (set_method Del t)), w2)"
    by (simp add: w2_def formatQuery_def Let_def)
  have j2: "jobs w2 = jobs w" by (simp add: w2_def w1_def formatQuery_world)
  obtain r3 w3 where s1: "submit cfg eng p1 c w2 = (r3, w3)" by (cases "submit cfg eng p1 c w2")
  have j3: "jobs w3 = jobs w @ [job_of cfg p1 c]"
    using submit_jobs [of cfg eng p1 c w2] s1 by (simp add: j2)
  obtain r4 w4 where s2: "submit cfg eng p2 c w3 = (r4, w4)" by (cases "submit cfg eng p2 c w3")
  have j4: "jobs w4 = jobs w @ [job_of cfg p1 c, job_of cfg p2 c]"
    using submit_jobs [of cfg eng p2 c w3] s2 by (simp add: j3)
  have "jobs (snd (remove_where cfg kx eng c wh w)) = jobs w @ [job_of cfg p1 c] \<or>
        jobs (snd (remove_where cfg kx eng c wh w)) = jobs w @ [job_of cfg p1 c, job_of cfg p2 c]"
    using s1 s2 j3 j4
    by (cases r3; cases r4)
       (simp_all add: remove_where_def Let_def t_def [symmetric] p1_def [symmetric]
          p2_def [symmetric] f1 f2)
  then show ?thesis unfolding p1_def t_def by auto
qed

text \<open>
  C2. On a payload with no context value under the context key every public operation
  returns the missing-context error and leaves the world as it was: no statement is
  formatted, logged or submitted. When \<open>retrieveContext\<close> succeeds, the payload handed on
  is the given one without the context key, and the statements the operations submit
  are compiled from that payload: the where object of \<open>findOne\<close> and \<open>removeMany\<close>, the
  filter of find and count, the update object, the entity of \<open>insert\<close>. For an array
  the key is removed from every entity before \<open>insertMany\<close> compiles them.
\<close>

theorem missing_context_aborts_and_carrier_stripped:
  "(is_nullish (obj_get p ctx_key) \<longrightarrow>
      find_op cfg kx eng p w = (Inl MissingContext, w) \<and>
      count cfg kx eng p w = (Inl MissingContext, w) \<and>
      findOne cfg kx eng p w = (Inl MissingContext, w) \<and>
      findById cfg kx eng p ident w = (Inl MissingContext, w) \<and>
      findByIds cfg kx eng p idList w = (Inl MissingContext, w) \<and>
      insert_op cfg kx eng p w = (Inl MissingContext, w) \<and>
      insertMany cfg kx eng (p # ps) w = (Inl MissingContext, w) \<and>
      insertMany cfg kx eng [] w = (Inl MissingContext, w) \<and>
      updateMany cfg kx eng where0 p w = (Inl MissingContext, w) \<and>
      updateById cfg kx eng ident p w = (Inl MissingContext, w) \<and>
      removeMany cfg kx eng p w = (Inl MissingContext, w) \<and>
      removeById cfg kx eng p ident w = (Inl MissingContext, w)) \<and>
   (retrieveContext cfg p = Inr (parsedContext, stripped) \<longrightarrow>
      stripped = obj_delete p ctx_key \<and> obj_get stripped ctx_key = JUndefined \<and>
      ctx_key \<notin> set (obj_keys stripped) \<and>
      ctx_key \<notin> set (where_columns (findOne_builder parsedContext stripped)) \<and>
      jobs (snd (findOne cfg kx eng p w))
        = jobs w @ [job_of cfg (kx (findOne_builder parsedContext stripped)) parsedContext] \<and>
      (cursor_builder cfg parsedContext stripped isCounting = Inr q \<longrightarrow>
         jobs (snd (createCursor cfg kx eng p isCounting w))
           = jobs w @ [job_of cfg (kx q) parsedContext]) \<and>
      (\<exists>rest. jobs (snd (removeMany cfg kx eng p w))
           = jobs w @
             job_of cfg
               (batch1 (replace_quotes
                  (kx (where_obj stripped (bq (context_table parsedContext)))))) parsedContext
             # rest) \<and>
      jobs (snd (updateMany cfg kx eng where0 p w))
        = jobs w @
          [job_of cfg
             (batch2
                (replace_quotes
                   (kx (set_method (Update stripped)
                          (where_obj where0 (bq (context_table parsedContext))))))
                (replace_quotes (kx (where_obj where0 (bq (context_table parsedContext))))))
             parsedContext] \<and>
      jobs (snd (updateById cfg kx eng ident p w))
        = jobs w @
          [job_of cfg
             (batch2
                (replace_quotes
                   (kx (set_method (Update stripped)
                          (where_obj [(getIdKey cfg, ident)] (bq (context_table parsedContext))))))
                (replace_quotes
                   (kx (where_obj [(getIdKey cfg, ident)] (bq (context_table parsedContext))))))
             parsedContext] \<and>
      jobs (snd (insert_op cfg kx eng p w))
        = jobs w @
          [job_of cfg
             (batch2
                (replace_quotes
                   (kx (set_method (Insert [[(getIdKey cfg, obj_get stripped (getIdKey cfg))]])
                          (bq (context_table parsedContext)))))
                (replace_quotes
                   (kx (whereIn (getIdKey cfg) [obj_get stripped (getIdKey cfg)]
                          (bq (context_table parsedContext))))))
             parsedContext]) \<and>
   (retrieveContext_array cfg (p # ps) = Inr (Some parsed, strippedEntities) \<longrightarrow>
      strippedEntities = map (\<lambda>e. obj_delete e ctx_key) (p # ps) \<and>
      list_all (\<lambda>e. ctx_key \<notin> set (obj_keys e)) strippedEntities \<and>
      jobs (snd (insertMany cfg kx eng (p # ps) w))
        = jobs w @
          [job_of cfg
             (batch2
                (replace_quotes
                   (kx (set_method (Insert strippedEntities) (bq (context_table parsed)))))
                (replace_quotes
                   (kx (whereIn (getIdKey cfg)
                          (map (\<lambda>entity. obj_get entity (getIdKey cfg)) strippedEntities)
                          (bq (context_table parsed))))))
             parsed])"
proof (intro conjI impI)
  assume m: "is_nullish (obj_get p ctx_key)"
  note r = retrieveContext_missing [OF m]
  show "find_op cfg kx eng p w = (Inl MissingContext, w)"
    by (simp add: find_op_def createCursor_def r)
  show "count cfg kx eng p w = (Inl MissingContext, w)"
    by (simp add: count_def createCursor_def r)
  show "findOne cfg kx eng p w = (Inl MissingContext, w)"
    by (simp add: findOne_def r)
  show "findById cfg kx eng p ident w = (Inl MissingContext, w)"
    by (simp add: findById_def r)
  show "findByIds cfg kx eng p idList w = (Inl MissingContext, w)"
    by (simp add: findByIds_def r)
  show "insert_op cfg kx eng p w = (Inl MissingContext, w)"
    by (simp add: insert_op_def r)
  show "insertMany cfg kx eng (p # ps) w = (Inl MissingContext, w)"
    by (simp add: insertMany_def retrieveContext_array_missing [OF m])
  show "insertMany cfg kx eng [] w = (Inl MissingContext, w)"
    by (simp add: insertMany_def retrieveContext_array_def)
  show "updateMany cfg kx eng where0 p w = (Inl MissingContext, w)"
    by (simp add: updateMany_def r)
  show "updateById cfg kx eng ident p w = (Inl MissingContext, w)"
    by (simp add: updateById_def r)
  show "removeMany cfg kx eng p w = (Inl MissingContext, w)"
    by (simp add: removeMany_def r)
  show "removeById cfg kx eng p ident w = (Inl MissingContext, w)"
    by (simp add: removeById_def r)
next
  assume r: "retrieveContext cfg p = Inr (parsedContext, stripped)"
  then have e: "stripped = obj_delete p ctx_key" by (rule retrieveContext_Inr)
  show "stripped = obj_delete p ctx_key" by (rule e)
  show "obj_get stripped ctx_key = JUndefined" by (simp add: e obj_get_deleted)
  show "ctx_key \<notin> set (obj_keys stripped)" by (simp add: e obj_delete_keys)
  show "ctx_key \<notin> set (where_columns (findOne_builder parsedContext stripped))"
    by (simp add: e where_columns_findOne obj_delete_keys)
  show "jobs (snd (findOne cfg kx eng p w))
        = jobs w @ [job_of cfg (kx (findOne_builder parsedContext stripped)) parsedContext]"
    using r by (rule findOne_jobs)
  show "\<exists>rest. jobs (snd (removeMany cfg kx eng p w))
           = jobs w @
             job_of cfg
               (batch1 (replace_quotes
                  (kx (where_obj stripped (bq (context_table parsedContext)))))) parsedContext
             # rest"
    using remove_where_first_job [of cfg kx eng parsedContext stripped w]
    by (simp add: removeMany_def r)
  show "jobs (snd (updateMany cfg kx eng where0 p w))
        = jobs w @
          [job_of cfg
             (batch2
                (replace_quotes
                   (kx (set_method (Update stripped)
                          (where_obj where0 (bq (context_table parsedContext))))))
                (replace_quotes (kx (where_obj where0 (bq (context_table parsedContext))))))
             parsedContext]"
    using r by (rule updateMany_jobs)
  show "jobs (snd (updateById cfg kx eng ident p w))
        = jobs w @
          [job_of cfg
             (batch2
                (replace_quotes
                   (kx (set_method (Update stripped)
                          (where_obj [(getIdKey cfg, ident)] (bq (context_table parsedContext))))))
                (replace_quotes
                   (kx (where_obj [(getIdKey cfg, ident)] (bq (context_table parsedContext))))))
             parsedContext]"
    using r by (rule updateById_jobs)
  show "jobs (snd (insert_op cfg kx eng p w))
        = jobs w @
          [job_of cfg
             (batch2
                (replace_quotes
                   (kx (set_method (Insert [[(getIdKey cfg, obj_get stripped (getIdKey cfg))]])
                          (bq (context_table parsedContext)))))
                (replace_quotes
                   (kx (whereIn (getIdKey cfg) [obj_get stripped (getIdKey cfg)]
                          (bq (context_table parsedContext))))))
             parsedContext]"
    using r by (rule insert_op_jobs)
  assume "cursor_builder cfg parsedContext stripped isCounting = Inr q"
  with r show "jobs (snd (createCursor cfg kx eng p isCounting w))
           = jobs w @ [job_of cfg (kx q) parsedContext]"
    by (rule createCursor_jobs)
next
  assume a: "retrieveContext_array cfg (p # ps) = Inr (Some parsed, strippedEntities)"
  then have e: "strippedEntities = map (\<lambda>e. obj_delete e ctx_key) (p # ps)"
    by (rule retrieveContext_array_Inr)
  show "strippedEntities = map (\<lambda>e. obj_delete e ctx_key) (p # ps)" by (rule e)
  show "list_all (\<lambda>e. ctx_key \<notin> set (obj_keys e)) strippedEntities"
    by (simp add: e list_all_iff obj_delete_keys)
  show "jobs (snd (insertMany cfg kx eng (p # ps) w))
        = jobs w @
          [job_of cfg
             (batch2
                (replace_quotes
                   (kx (set_method (Insert strippedEntities) (bq (context_table parsed)))))
                (replace_quotes
                   (kx (whereIn (getIdKey cfg)
                          (map (\<lambda>entity. obj_get entity (getIdKey cfg)) strippedEntities)
                          (bq (context_table parsed))))))
             parsed]"
    using a by (rule insertMany_jobs)
qed

theorem missing_context_witness:
  "is_nullish (obj_get [(''a'', JNum 1)] ctx_key) \<and>
   findOne demo_config pg_toString demo_engine [(''a'', JNum 1)] demo_world
     = (Inl MissingContext, demo_world) \<and>
   removeById demo_config pg_toString demo_engine [(''a'', JNum 1)] (JStr ''X'') demo_world
     = (Inl MissingContext, demo_world) \<and>
   insertMany demo_config pg_toString demo_engine [[(''a'', JNum 1)]] demo_world
     = (Inl MissingContext, demo_world) \<and>
   retrieveContext demo_config [(ctx_key, JObj [(''region'', JStr ''EU'')]), (''a'', JNum 1)]
     = Inr ([(''region'', JStr ''EU''), (''tableName'', JStr ''ds.compiled'')], [(''a'', JNum 1)]) \<and>
   obj_get [(''a'', JNum 1)] ctx_key = JUndefined \<and>
   ctx_key \<notin> set (where_columns
      (findOne_builder [(''region'', JStr ''EU''), (''tableName'', JStr ''ds.compiled'')]
         [(''a'', JNum 1)])) \<and>
   cursor_builder demo_config [(''region'', JStr ''EU''), (''tableName'', JStr ''ds.compiled'')]
      [(''a'', JNum 1)] False = Inr (bq ''ds.compiled'') \<and>
   jobs (snd (createCursor demo_config pg_toString demo_engine
                [(ctx_key, JObj [(''region'', JStr ''EU'')]), (''a'', JNum 1)] False demo_world))
     = jobs demo_world @
       [job_of demo_config (pg_toString (bq ''ds.compiled''))
          [(''region'', JStr ''EU''), (''tableName'', JStr ''ds.compiled'')]] \<and>
   retrieveContext_array demo_config
      [[(ctx_key, JObj [(''region'', JStr ''EU'')]), (''a'', JNum 1)]]
     = Inr (Some [(''region'', JStr ''EU''), (''tableName'', JStr ''ds.compiled'')],
            [[(''a'', JNum 1)]]) \<and>
   list_all (\<lambda>e. ctx_key \<notin> set (obj_keys e)) [[(''a'', JNum 1)]]"
proof -
  let ?p = "[(''a'', JNum 1)]"
  let ?q = "[(ctx_key, JObj [(''region'', JStr ''EU'')]), (''a'', JNum 1)]"
  let ?c = "[(''region'', JStr ''EU''), (''tableName'', JStr ''ds.compiled'')]"
  have h1: "is_nullish (obj_get ?p ctx_key)"
    by (simp add: obj_get_def ctx_key_def)
  have h2: "retrieveContext demo_config ?q = Inr (?c, ?p)"
    by (simp add: retrieveContext_def obj_get_def obj_delete_def ctx_key_def demo_config_def)
  have h3: "retrieveContext_array demo_config [?q] = Inr (Some ?c, [?p])"
    by (simp add: retrieveContext_array_def h2)
  have h4: "cursor_builder demo_config ?c ?p False = Inr (bq ''ds.compiled'')"
    by code_simp
  note a = missing_context_aborts_and_carrier_stripped
      [where p = "?p" and cfg = demo_config and kx = pg_toString and eng = demo_engine
         and w = demo_world and ident = "JStr ''X''" and ps = "[]"]
  note b = missing_context_aborts_and_carrier_stripped
      [where p = "?q" and cfg = demo_config and parsedContext = "?c" and stripped = "?p"
         and ps = "[]" and parsed = "?c" and strippedEntities = "[?p]"
         and kx = pg_toString and eng = demo_engine and w = demo_world
         and isCounting = False and q = "bq ''ds.compiled''"]
  from a h1 have 1: "findOne demo_config pg_toString demo_engine ?p demo_world
       = (Inl MissingContext, demo_world)"
    and 2: "removeById demo_config pg_toString demo_engine ?p (JStr ''X'') demo_world
       = (Inl MissingContext, demo_world)"
    and 3: "insertMany demo_config pg_toString demo_engine [?p] demo_world
       = (Inl MissingContext, demo_world)"
    by blast+
  from b h2 have 4: "obj_get ?p ctx_key = JUndefined"
    and 5: "ctx_key \<notin> set (where_columns (findOne_builder ?c ?p))"
    by blast+
  from b h2 h4 have 7: "jobs (snd (createCursor demo_config pg_toString demo_engine ?q False
        demo_world))
     = jobs demo_world @ [job_of demo_config (pg_toString (bq ''ds.compiled'')) ?c]"
    by blast
  from b h3 have 6: "list_all (\<lambda>e. ctx_key \<notin> set (obj_keys e)) [?p]"
    by blast
  from h1 1 2 3 h2 4 5 h4 7 h3 6 show ?thesis by blast
qed

end
